theory Spec2Isabelle
  imports Complex_Main "HOL-Library.Sublist" "HOL-Library.Multiset"
begin

section \<open>Numbers\<close>

text \<open>
  A TypeScript \<open>number\<close> is modelled as a \<^typ>\<open>real\<close>: arithmetic is exact, and
  NaN, the infinities and the rounding error of IEEE doubles are outside the model.
  \<open>Math.round\<close> rounds to the nearest integer, a half going towards plus infinity;
  \<open>Math.pow\<close> on a non-negative base is \<open>powr\<close>, and the square it computes in
  \<open>stdev\<close> is written as a square.
\<close>

definition Math_round :: "real \<Rightarrow> real" where
  "Math_round x = of_int \<lfloor>x + 1 / 2\<rfloor>"

section \<open>The calculator (growth-index module)\<close>

record GrowthMetrics =
  revenueCagr :: real
  epsCagr :: real
  fcfCagr :: real
  marginDelta :: real
  annualRevenueGrowth :: "real list"
  roic :: real
  wacc :: real

record Weights =
  revenue :: real
  eps :: real
  fcf :: real
  margin :: real

text \<open>The \<open>components\<close> object has the four fields of \<open>Weights\<close>.\<close>

type_synonym Components = Weights

record GrowthIndexResult =
  growthIndex :: real
  baseScore :: real
  consistencyFactor :: real
  qualityFactor :: real
  components :: Components

record Company =
  name :: string
  ticker :: "string option"
  metrics :: GrowthMetrics


definition DEFAULT_WEIGHTS :: Weights where
  "DEFAULT_WEIGHTS = \<lparr>revenue = 0.35, eps = 0.30, fcf = 0.20, margin = 0.15\<rparr>"

text \<open>
  \<open>values.reduce((a, b) => a + b, 0)\<close> is a left fold from 0. The sums of
  \<open>stdev\<close> and \<open>mean\<close> are exact here; what they do when they overflow is the
  subject of the section on doubles with overflow below.
\<close>

definition stdev :: "real list \<Rightarrow> real" where
  "stdev values =
     (let n = length values in
      if n < 2 then 0
      else
        let mean = foldl (+) 0 values / real n;
            squaredDiffs = map (\<lambda>v. (v - mean)\<^sup>2) values;
            variance = foldl (+) 0 squaredDiffs / (real n - 1)
        in sqrt variance)"

definition mean :: "real list \<Rightarrow> real" where
  "mean values =
     (if length values = 0 then 0
      else foldl (+) 0 values / real (length values))"

text \<open>
  The optional parameters \<open>minCf\<close>, \<open>maxCf\<close>, \<open>minQf\<close>, \<open>maxQf\<close> and \<open>weights\<close>
  are explicit arguments here; a call that omits them in the source passes the
  default below.
\<close>

definition default_minCf :: real where "default_minCf = 0.5"
definition default_maxCf :: real where "default_maxCf = 1.0"
definition default_minQf :: real where "default_minQf = 0.7"
definition default_maxQf :: real where "default_maxQf = 1.0"

definition calculateConsistencyFactor :: "real list \<Rightarrow> real \<Rightarrow> real \<Rightarrow> real" where
  "calculateConsistencyFactor annualGrowthRates minCf maxCf =
     (if length annualGrowthRates < 2 then maxCf
      else
        let meanGrowth = mean annualGrowthRates in
        if meanGrowth \<le> 0 then minCf
        else
          let stdGrowth = stdev annualGrowthRates;
              coefficientOfVariation = stdGrowth / meanGrowth;
              cf = 1 - coefficientOfVariation
          in max minCf (min maxCf cf))"

definition calculateQualityFactor :: "real \<Rightarrow> real \<Rightarrow> real \<Rightarrow> real \<Rightarrow> real" where
  "calculateQualityFactor roic' wacc' minQf maxQf =
     (if wacc' \<le> 0 then maxQf
      else
        let roicWaccRatio = min 1.0 (roic' / wacc');
            qf = minQf + (maxQf - minQf) * roicWaccRatio
        in qf)"

definition calculateGrowthIndex :: "GrowthMetrics \<Rightarrow> Weights \<Rightarrow> GrowthIndexResult" where
  "calculateGrowthIndex m weights =
     (let comps = \<lparr>revenue = revenue weights * revenueCagr m,
                   eps = eps weights * epsCagr m,
                   fcf = fcf weights * fcfCagr m,
                   margin = margin weights * marginDelta m\<rparr>;
          baseScore' = revenue comps + eps comps + fcf comps + margin comps;
          consistencyFactor' =
            calculateConsistencyFactor (annualRevenueGrowth m) default_minCf default_maxCf;
          qualityFactor' = calculateQualityFactor (roic m) (wacc m) default_minQf default_maxQf;
          growthIndex' = baseScore' * consistencyFactor' * qualityFactor'
      in \<lparr>growthIndex = Math_round (growthIndex' * 100) / 100,
          baseScore = Math_round (baseScore' * 100) / 100,
          consistencyFactor = Math_round (consistencyFactor' * 1000) / 1000,
          qualityFactor = Math_round (qualityFactor' * 1000) / 1000,
          components = \<lparr>revenue = Math_round (revenue comps * 100) / 100,
                        eps = Math_round (eps comps * 100) / 100,
                        fcf = Math_round (fcf comps * 100) / 100,
                        margin = Math_round (margin comps * 100) / 100\<rparr>\<rparr>)"




datatype Color = green | yellow | orange | red | purple

record Interpretation =
  label :: string
  description :: string
  color :: Color

definition interpretGrowthIndex :: "real \<Rightarrow> Interpretation" where
  "interpretGrowthIndex gi =
     (if gi \<ge> 40 then
        \<lparr>label = ''Exceptional Growth'',
         description = ''Hypergrowth company with outstanding metrics across all dimensions'',
         color = purple\<rparr>
      else if gi \<ge> 25 then
        \<lparr>label = ''Strong Growth'',
         description = ''High-growth company with solid fundamentals and value creation'',
         color = green\<rparr>
      else if gi \<ge> 15 then
        \<lparr>label = ''Moderate Growth'',
         description = ''Healthy growth with room for improvement in some areas'',
         color = yellow\<rparr>
      else if gi \<ge> 5 then
        \<lparr>label = ''Low Growth'',
         description = ''Mature company with stable but limited growth prospects'',
         color = orange\<rparr>
      else
        \<lparr>label = ''Declining/Stagnant'',
         description = ''Company facing headwinds or in a declining phase'',
         color = red\<rparr>)"

section \<open>Strings\<close>

text \<open>
  Strings are byte lists, and tickers are ASCII. \<open>toUpperCase\<close> maps the letters
  a to z to A to Z; \<open>trim\<close> removes the ASCII white space (tab, line feed,
  vertical tab, form feed, carriage return, space) at both ends; \<open>join\<close> is
  \<open>Array.prototype.join\<close>; \<open>string_of_nat\<close> is the decimal text a template
  literal gives a non-negative integer.
\<close>

definition upper_char :: "char \<Rightarrow> char" where
  "upper_char c =
     (let n = (of_char c :: nat) in
      if 97 \<le> n \<and> n \<le> 122 then char_of (n - 32) else c)"

definition toUpperCase :: "string \<Rightarrow> string" where
  "toUpperCase s = map upper_char s"

definition is_space :: "char \<Rightarrow> bool" where
  "is_space c = ((of_char c :: nat) \<in> {9, 10, 11, 12, 13, 32})"

definition trim :: "string \<Rightarrow> string" where
  "trim s = rev (dropWhile is_space (rev (dropWhile is_space s)))"

fun join :: "string \<Rightarrow> string list \<Rightarrow> string" where
  "join sep [] = []"
| "join sep [x] = x"
| "join sep (x # y # ys) = x @ sep @ join sep (y # ys)"

fun string_of_nat :: "nat \<Rightarrow> string" where
  "string_of_nat n =
     (if n < 10 then [''0123456789'' ! n]
      else string_of_nat (n div 10) @ [''0123456789'' ! (n mod 10)])"

section \<open>The Yahoo lookup route\<close>

subsection \<open>Numeric helpers\<close>

text \<open>
  \<open>Math.pow\<close> is only reached with a non-negative base and a positive exponent,
  where it is the real power (and 0 for base 0).
\<close>

definition Math_pow :: "real \<Rightarrow> real \<Rightarrow> real" where
  "Math_pow x y = x powr y"

definition calcCAGR :: "real \<Rightarrow> real \<Rightarrow> real \<Rightarrow> real" where
  "calcCAGR start end' years =
     (if years \<le> 0 \<or> start = 0 then 0
      else if start < 0 \<and> end' > 0 then (((end' - start) / \<bar>start\<bar>) * 100) / years
      else if start > 0 \<and> end' < 0 then (((end' - start) / start) * 100) / years
      else if start < 0 \<and> end' < 0 then
        (((\<bar>start\<bar> - \<bar>end'\<bar>) / \<bar>start\<bar>) * 100) / years
      else (Math_pow (end' / start) (1 / years) - 1) * 100)"

definition calcYoY :: "real \<Rightarrow> real \<Rightarrow> real" where
  "calcYoY prev curr' = (if prev = 0 then 0 else ((curr' - prev) / \<bar>prev\<bar>) * 100)"

text \<open>\<open>beta || 1\<close> on a number: 0 is falsy and gives 1.\<close>

definition estimateWACC :: "real \<Rightarrow> real" where
  "estimateWACC beta' =
     (let rf = 4.5; mrp = 5.5 in
      rf + max 0.5 (min 2.5 (if beta' = 0 then 1 else beta')) * mrp)"

subsection \<open>The provider's payload\<close>

text \<open>
  The part of the \<open>quoteSummary\<close> payload the score reads. A field that may be
  missing is an option; \<open>x || d\<close> gives \<open>d\<close> for a missing field, for 0 and for
  the empty string. The nested modules are flattened:
  \<open>incomeStatementHistory\<close> is \<open>summary.incomeStatementHistory?.incomeStatementHistory\<close>,
  \<open>cashflowStatements\<close> is \<open>summary.cashflowStatementHistory?.cashflowStatements\<close>,
  \<open>beta\<close> is \<open>summary.defaultKeyStatistics?.beta\<close>,
  \<open>returnOnEquity\<close> is \<open>summary.financialData?.returnOnEquity\<close>,
  \<open>longName\<close> and \<open>shortName\<close> are those of \<open>summary.price\<close>.
\<close>

record IncomeStatement =
  totalRevenue :: "real option"
  operatingIncome :: "real option"
  netIncome :: "real option"

record CashflowStatement =
  totalCashFromOperatingActivities :: "real option"
  capitalExpenditures :: "real option"

record QuoteSummary =
  incomeStatementHistory :: "IncomeStatement list option"
  cashflowStatements :: "CashflowStatement list option"
  beta :: "real option"
  returnOnEquity :: "real option"
  longName :: "string option"
  shortName :: "string option"

definition or_num :: "real option \<Rightarrow> real \<Rightarrow> real" where
  "or_num x d = (case x of None \<Rightarrow> d | Some v \<Rightarrow> if v = 0 then d else v)"

definition or_str :: "string option \<Rightarrow> string \<Rightarrow> string" where
  "or_str x d = (case x of None \<Rightarrow> d | Some v \<Rightarrow> if v = [] then d else v)"

subsection \<open>fetchCompanyData\<close>

text \<open>The local functions \<open>rev\<close>, \<open>opInc\<close>, \<open>eps\<close> and \<open>fcf\<close>.\<close>

definition rev_y :: "IncomeStatement \<Rightarrow> real" where
  "rev_y y = or_num (totalRevenue y) 0"

definition opInc :: "IncomeStatement \<Rightarrow> real" where
  "opInc y = or_num (operatingIncome y) 0"

definition eps_y :: "IncomeStatement \<Rightarrow> real" where
  "eps_y y = (case netIncome y of None \<Rightarrow> 0 | Some v \<Rightarrow> if v \<noteq> 0 then v else 0)"

definition fcf_c :: "CashflowStatement \<Rightarrow> real" where
  "fcf_c c = or_num (totalCashFromOperatingActivities c) 0 - \<bar>or_num (capitalExpenditures c) 0\<bar>"

text \<open>
  The metrics \<open>fetchCompanyData\<close> derives (its lines from \<open>const y0 = income[0]\<close>
  to \<open>const wacc = estimateWACC(beta)\<close>), collected in the object it passes to
  \<open>calculateGrowthIndex\<close>. It is only reached with at least four entries in each
  list.
\<close>

definition deriveMetrics ::
  "IncomeStatement list \<Rightarrow> CashflowStatement list \<Rightarrow> QuoteSummary \<Rightarrow> GrowthMetrics" where
  "deriveMetrics income cashFlow summary =
     (let y0 = income ! 0; y1 = income ! 1; y2 = income ! 2; y3 = income ! 3;
          revenueCagr' = calcCAGR (rev_y y3) (rev_y y0) 3;
          epsCagr' = calcCAGR (eps_y y3) (eps_y y0) 3;
          fcfCagr' = calcCAGR (fcf_c (cashFlow ! 3)) (fcf_c (cashFlow ! 0)) 3;
          margin0 = (if rev_y y0 > 0 then (opInc y0 / rev_y y0) * 100 else 0);
          margin3 = (if rev_y y3 > 0 then (opInc y3 / rev_y y3) * 100 else 0);
          marginDelta' = margin0 - margin3;
          annualRevenueGrowth' =
            [calcYoY (rev_y y3) (rev_y y2),
             calcYoY (rev_y y2) (rev_y y1),
             calcYoY (rev_y y1) (rev_y y0)];
          beta' = or_num (beta summary) 1;
          roic' = or_num (returnOnEquity summary) 0.15 * 100;
          wacc' = estimateWACC beta'
      in \<lparr>revenueCagr = revenueCagr',
          epsCagr = epsCagr',
          fcfCagr = fcfCagr',
          marginDelta = marginDelta',
          annualRevenueGrowth = annualRevenueGrowth',
          roic = roic',
          wacc = wacc'\<rparr>)"

text \<open>
  The object \<open>fetchCompanyData\<close> returns, without its \<open>company\<close>, \<open>market\<close>,
  \<open>priceHistory\<close> and \<open>revenueHistory\<close> fields, which nothing of the score reads.
\<close>

record ReportedMetrics =
  m_revenueCagr :: real
  m_epsCagr :: real
  m_fcfCagr :: real
  m_marginDelta :: real
  m_roic :: real
  m_wacc :: real

record CompanyData =
  out_ticker :: string
  out_name :: string
  out_growthIndex :: real
  out_baseScore :: real
  out_consistencyFactor :: real
  out_qualityFactor :: real
  out_metrics :: ReportedMetrics
  out_interpretation :: Interpretation
  out_weights :: Weights

text \<open>
  The provider is a parameter: \<open>quoteSummary ticker\<close> is the payload, or the message
  of the error the call throws. The chart request cannot fail the pipeline (its
  rejection is caught and replaced by null). A thrown \<open>Error\<close> is \<open>Inl\<close> of its
  message.
\<close>

definition fetchCompanyData ::
  "(string \<Rightarrow> string + QuoteSummary) \<Rightarrow> string \<Rightarrow> string + CompanyData" where
  "fetchCompanyData quoteSummary ticker' =
     (case quoteSummary ticker' of
        Inl msg \<Rightarrow> Inl msg
      | Inr summary \<Rightarrow>
          (case incomeStatementHistory summary of
             None \<Rightarrow> Inl (''No income data for '' @ ticker')
           | Some income \<Rightarrow>
               if length income = 0 then Inl (''No income data for '' @ ticker')
               else if length income < 4 then
                 Inl (''Need 4yr data for '' @ ticker' @ '', got '' @ string_of_nat (length income))
               else
                 (case cashflowStatements summary of
                    None \<Rightarrow> Inl (''Need 4yr cash flow for '' @ ticker')
                  | Some cashFlow \<Rightarrow>
                      if length cashFlow = 0 \<or> length cashFlow < 4 then
                        Inl (''Need 4yr cash flow for '' @ ticker')
                      else
                        let m = deriveMetrics income cashFlow summary;
                            gi = calculateGrowthIndex m DEFAULT_WEIGHTS
                        in Inr \<lparr>out_ticker = toUpperCase ticker',
                                out_name = or_str (longName summary) (or_str (shortName summary) ticker'),
                                out_growthIndex = growthIndex gi,
                                out_baseScore = baseScore gi,
                                out_consistencyFactor = consistencyFactor gi,
                                out_qualityFactor = qualityFactor gi,
                                out_metrics =
                                  \<lparr>m_revenueCagr = Math_round (revenueCagr m * 10) / 10,
                                   m_epsCagr = Math_round (epsCagr m * 10) / 10,
                                   m_fcfCagr = Math_round (fcfCagr m * 10) / 10,
                                   m_marginDelta = Math_round (marginDelta m * 10) / 10,
                                   m_roic = Math_round (roic m * 10) / 10,
                                   m_wacc = Math_round (wacc m * 10) / 10\<rparr>,
                                out_interpretation = interpretGrowthIndex (growthIndex gi),
                                out_weights =
                                  \<lparr>revenue = 0.30, eps = 0.25, fcf = 0.25, margin = 0.20\<rparr>\<rparr>)))"

subsection \<open>The batch handler\<close>

text \<open>
  An element of \<open>results\<close> is the data of a ticker, or \<open>{ticker, error}\<close>.
  \<open>has_error\<close> is \<open>"error" in r\<close> and \<open>error_of\<close> is \<open>r.error\<close>, which
  \<open>join\<close> prints as the empty string where it is undefined.
\<close>

datatype Entry = Data CompanyData | Failed string string

fun has_error :: "Entry \<Rightarrow> bool" where
  "has_error (Data d) = False"
| "has_error (Failed t e) = True"

fun error_of :: "Entry \<Rightarrow> string" where
  "error_of (Data d) = []"
| "error_of (Failed t e) = e"

record ResponseBody =
  success :: bool
  error :: "string option"
  data :: "Entry list option"

record Response =
  status :: nat
  body :: ResponseBody

text \<open>The call the loop makes for a ticker \<open>t\<close> of the request.\<close>

abbreviation pipeline :: "(string \<Rightarrow> string + QuoteSummary) \<Rightarrow> string \<Rightarrow> string + CompanyData" where
  "pipeline quoteSummary t \<equiv> fetchCompanyData quoteSummary (toUpperCase (trim t))"

text \<open>The body of the loop over \<open>tickers.slice(0, 10)\<close>.\<close>

definition processTicker :: "(string \<Rightarrow> string + QuoteSummary) \<Rightarrow> string \<Rightarrow> Entry" where
  "processTicker quoteSummary t =
     (case pipeline quoteSummary t of
        Inr d \<Rightarrow> Data d
      | Inl msg \<Rightarrow> Failed (toUpperCase t) msg)"

text \<open>
  \<open>POST\<close> on the \<open>tickers\<close> of the request body (\<open>None\<close> when the body has
  none). The outer \<open>catch\<close> (status 500) answers a body that is not JSON and a
  ticker that is not a string, which this input type excludes.
\<close>

definition POST :: "(string \<Rightarrow> string + QuoteSummary) \<Rightarrow> string list option \<Rightarrow> Response" where
  "POST quoteSummary tickers =
     (case tickers of
        None \<Rightarrow>
          \<lparr>status = 400, body = \<lparr>success = False, error = Some ''No tickers'', data = None\<rparr>\<rparr>
      | Some ts \<Rightarrow>
          if length ts = 0 then
            \<lparr>status = 400, body = \<lparr>success = False, error = Some ''No tickers'', data = None\<rparr>\<rparr>
          else
            let results = map (processTicker quoteSummary) (take 10 ts);
                ok = filter (\<lambda>r. \<not> has_error r) results
            in if length ok = 0 then
                 \<lparr>status = 400,
                  body = \<lparr>success = False,
                          error = Some (join ''; '' (map error_of results)),
                          data = None\<rparr>\<rparr>
               else
                 \<lparr>status = 200, body = \<lparr>success = True, error = None, data = Some ok\<rparr>\<rparr>)"

section \<open>Doubles with overflow\<close>

text \<open>
  Whether the consistency factor stays in its range depends on what a sum does when
  it leaves the range of a double. For that question \<open>mean\<close>, \<open>stdev\<close> and
  \<open>calculateConsistencyFactor\<close> are modelled a second time, on numbers that are a
  finite real, plus or minus Infinity, or NaN. An operation on finite numbers gives
  the exact result, or an infinity when the exact result reaches the overflow
  threshold \<open>2^1024 - 2^970\<close>, the midpoint between \<open>Number.MAX_VALUE\<close> and
  \<open>2^1024\<close> from which rounding to nearest gives Infinity. The rounding of a
  result inside the range is not modelled, and zero is +0. On the infinities and
  NaN the operations are those of IEEE 754: \<open>add_d\<close> is \<open>+\<close>, \<open>sub_d\<close> is
  \<open>-\<close>, \<open>div_d\<close> is \<open>/\<close>, \<open>square_d\<close> is \<open>Math.pow(x, 2)\<close>, \<open>sqrt_d\<close> is
  \<open>Math.sqrt\<close>, \<open>le_d\<close> is \<open><=\<close>, \<open>min_d\<close> and \<open>max_d\<close> are \<open>Math.min\<close>
  and \<open>Math.max\<close>.
\<close>

datatype double = Fin real | Infinity | NegInfinity | NaN

definition MAX_VALUE :: real where
  "MAX_VALUE = 2 ^ 1024 - 2 ^ 971"

definition overflow_threshold :: real where
  "overflow_threshold = 2 ^ 1024 - 2 ^ 970"

definition fl :: "real \<Rightarrow> double" where
  "fl r =
     (if overflow_threshold \<le> r then Infinity
      else if r \<le> - overflow_threshold then NegInfinity
      else Fin r)"

fun neg_d :: "double \<Rightarrow> double" where
  "neg_d (Fin a) = Fin (- a)"
| "neg_d Infinity = NegInfinity"
| "neg_d NegInfinity = Infinity"
| "neg_d NaN = NaN"

fun add_d :: "double \<Rightarrow> double \<Rightarrow> double" where
  "add_d NaN y = NaN"
| "add_d x NaN = NaN"
| "add_d Infinity NegInfinity = NaN"
| "add_d NegInfinity Infinity = NaN"
| "add_d Infinity y = Infinity"
| "add_d x Infinity = Infinity"
| "add_d NegInfinity y = NegInfinity"
| "add_d x NegInfinity = NegInfinity"
| "add_d (Fin a) (Fin b) = fl (a + b)"

definition sub_d :: "double \<Rightarrow> double \<Rightarrow> double" where
  "sub_d x y = add_d x (neg_d y)"

fun square_d :: "double \<Rightarrow> double" where
  "square_d (Fin a) = fl (a\<^sup>2)"
| "square_d Infinity = Infinity"
| "square_d NegInfinity = Infinity"
| "square_d NaN = NaN"

fun div_d :: "double \<Rightarrow> double \<Rightarrow> double" where
  "div_d NaN y = NaN"
| "div_d x NaN = NaN"
| "div_d Infinity (Fin b) = (if b < 0 then NegInfinity else Infinity)"
| "div_d NegInfinity (Fin b) = (if b < 0 then Infinity else NegInfinity)"
| "div_d Infinity y = NaN"
| "div_d NegInfinity y = NaN"
| "div_d (Fin a) (Fin b) =
     (if b = 0 then (if a = 0 then NaN else if a < 0 then NegInfinity else Infinity)
      else fl (a / b))"
| "div_d (Fin a) y = Fin 0"

fun sqrt_d :: "double \<Rightarrow> double" where
  "sqrt_d (Fin a) = (if a < 0 then NaN else Fin (sqrt a))"
| "sqrt_d Infinity = Infinity"
| "sqrt_d NegInfinity = NaN"
| "sqrt_d NaN = NaN"

fun le_d :: "double \<Rightarrow> double \<Rightarrow> bool" where
  "le_d NaN y = False"
| "le_d x NaN = False"
| "le_d NegInfinity y = True"
| "le_d x Infinity = True"
| "le_d Infinity y = False"
| "le_d x NegInfinity = False"
| "le_d (Fin a) (Fin b) = (a \<le> b)"

definition min_d :: "double \<Rightarrow> double \<Rightarrow> double" where
  "min_d x y = (if x = NaN \<or> y = NaN then NaN else if le_d x y then x else y)"

definition max_d :: "double \<Rightarrow> double \<Rightarrow> double" where
  "max_d x y = (if x = NaN \<or> y = NaN then NaN else if le_d x y then y else x)"

definition mean_d :: "double list \<Rightarrow> double" where
  "mean_d values =
     (if length values = 0 then Fin 0
      else div_d (foldl add_d (Fin 0) values) (Fin (real (length values))))"

definition stdev_d :: "double list \<Rightarrow> double" where
  "stdev_d values =
     (let n = length values in
      if n < 2 then Fin 0
      else
        let mean = div_d (foldl add_d (Fin 0) values) (Fin (real n));
            squaredDiffs = map (\<lambda>v. square_d (sub_d v mean)) values;
            variance = div_d (foldl add_d (Fin 0) squaredDiffs) (Fin (real n - 1))
        in sqrt_d variance)"

definition calculateConsistencyFactor_d :: "double list \<Rightarrow> double \<Rightarrow> double \<Rightarrow> double" where
  "calculateConsistencyFactor_d annualGrowthRates minCf maxCf =
     (if length annualGrowthRates < 2 then maxCf
      else
        let meanGrowth = mean_d annualGrowthRates in
        if le_d meanGrowth (Fin 0) then minCf
        else
          let stdGrowth = stdev_d annualGrowthRates;
              coefficientOfVariation = div_d stdGrowth meanGrowth;
              cf = sub_d (Fin 1) coefficientOfVariation
          in max_d minCf (min_d maxCf cf))"

text \<open>The call with the default bounds on a series of finite numbers.\<close>

abbreviation cf_default :: "real list \<Rightarrow> double" where
  "cf_default g \<equiv>
     calculateConsistencyFactor_d (map Fin g) (Fin default_minCf) (Fin default_maxCf)"

section \<open>Notions of the specification\<close>

text \<open>
  The words the specification uses for what the code computes: clamping to an
  interval, the arithmetic mean, and the sample standard deviation (dividing by
  \<open>n - 1\<close>).
\<close>

definition clamp :: "real \<Rightarrow> real \<Rightarrow> real \<Rightarrow> real" where
  "clamp x lo hi = max lo (min hi x)"

definition arithmeticMean :: "real list \<Rightarrow> real" where
  "arithmeticMean g = sum_list g / real (length g)"

definition sampleStdev :: "real list \<Rightarrow> real" where
  "sampleStdev g = sqrt ((\<Sum>x\<leftarrow>g. (x - arithmeticMean g)\<^sup>2) / (real (length g) - 1))"

text \<open>
  Rounding half away from zero, as the specification names it, and the
  \<open>GrowthMetrics\<close> object made of the reported (one-decimal) metric values and a
  growth series.
\<close>

definition round_half_away_from_zero :: "real \<Rightarrow> real" where
  "round_half_away_from_zero x = sgn x * of_int \<lfloor>\<bar>x\<bar> + 1 / 2\<rfloor>"

definition metrics_of_reported :: "ReportedMetrics \<Rightarrow> real list \<Rightarrow> GrowthMetrics" where
  "metrics_of_reported r growth =
     \<lparr>revenueCagr = m_revenueCagr r,
      epsCagr = m_epsCagr r,
      fcfCagr = m_fcfCagr r,
      marginDelta = m_marginDelta r,
      annualRevenueGrowth = growth,
      roic = m_roic r,
      wacc = m_wacc r\<rparr>"

section \<open>Sample data\<close>

text \<open>
  A provider that knows two symbols. ACME has four years, newest first: revenue
  128, 64, 32, 16; operating income only in the oldest year (1); net income 50 in
  the newest and -100 in the oldest year; operating cash flow -40 in the newest
  year, and 100 with capital expenditures -20 in the oldest. NEWCO has two years
  of income statements. Any other symbol makes the provider throw.
\<close>

definition acme_income :: "IncomeStatement list" where
  "acme_income =
     [\<lparr>totalRevenue = Some 128, operatingIncome = None, netIncome = Some 50\<rparr>,
      \<lparr>totalRevenue = Some 64, operatingIncome = None, netIncome = None\<rparr>,
      \<lparr>totalRevenue = Some 32, operatingIncome = None, netIncome = None\<rparr>,
      \<lparr>totalRevenue = Some 16, operatingIncome = Some 1, netIncome = Some (-100)\<rparr>]"

definition acme_cashFlow :: "CashflowStatement list" where
  "acme_cashFlow =
     [\<lparr>totalCashFromOperatingActivities = Some (-40), capitalExpenditures = None\<rparr>,
      \<lparr>totalCashFromOperatingActivities = None, capitalExpenditures = None\<rparr>,
      \<lparr>totalCashFromOperatingActivities = None, capitalExpenditures = None\<rparr>,
      \<lparr>totalCashFromOperatingActivities = Some 100, capitalExpenditures = Some (-20)\<rparr>]"

definition acme_summary :: QuoteSummary where
  "acme_summary =
     \<lparr>incomeStatementHistory = Some acme_income,
      cashflowStatements = Some acme_cashFlow,
      beta = None,
      returnOnEquity = None,
      longName = Some ''Acme Corporation'',
      shortName = None\<rparr>"

definition newco_summary :: QuoteSummary where
  "newco_summary =
     \<lparr>incomeStatementHistory = Some (take 2 acme_income),
      cashflowStatements = Some acme_cashFlow,
      beta = Some 1.5,
      returnOnEquity = Some 0.2,
      longName = None,
      shortName = Some ''NewCo''\<rparr>"

definition sample_provider :: "string \<Rightarrow> string + QuoteSummary" where
  "sample_provider t =
     (if t = ''ACME'' then Inr acme_summary
      else if t = ''NEWCO'' then Inr newco_summary
      else Inl (''Quote not found for symbol: '' @ t))"

text \<open>What the route reports for ACME.\<close>

definition acme_data :: CompanyData where
  "acme_data =
     \<lparr>out_ticker = ''ACME'',
      out_name = ''Acme Corporation'',
      out_growthIndex = 39.06,
      out_baseScore = 39.06,
      out_consistencyFactor = 1,
      out_qualityFactor = 1,
      out_metrics =
        \<lparr>m_revenueCagr = 100, m_epsCagr = 50, m_fcfCagr = -50,
         m_marginDelta = -6.2, m_roic = 15, m_wacc = 10\<rparr>,
      out_interpretation = interpretGrowthIndex 39.06,
      out_weights = \<lparr>revenue = 0.30, eps = 0.25, fcf = 0.25, margin = 0.20\<rparr>\<rparr>"

text \<open>Two large finite numbers, 1e308 and 1e200.\<close>

definition e308 :: real where
  "e308 = 10 ^ 308"

definition e200 :: real where
  "e200 = 10 ^ 200"

text \<open>The \<open>EXAMPLE_COMPANIES.META\<close> metrics of the calculator module.\<close>

definition META_metrics :: GrowthMetrics where
  "META_metrics =
     \<lparr>revenueCagr = 18.8,
      epsCagr = 66.7,
      fcfCagr = 67.5,
      marginDelta = 8.3,
      annualRevenueGrowth = [15.7, 21.9, 21.3],
      roic = 34.0,
      wacc = 12.7\<rparr>"

section \<open>Properties\<close>

subsection \<open>Sums, mean and deviation\<close>

lemma foldl_plus_start: "foldl (+) (a::real) xs = a + sum_list xs"
  by (induction xs arbitrary: a) simp_all

lemma reduce_sum: "foldl (+) (0::real) xs = sum_list xs"
  by (simp add: foldl_plus_start)

lemma mean_eq: "xs \<noteq> [] \<Longrightarrow> mean xs = arithmeticMean xs"
  by (simp add: mean_def arithmeticMean_def reduce_sum)

lemma stdev_eq: "2 \<le> length xs \<Longrightarrow> stdev xs = sampleStdev xs"
  by (simp add: stdev_def sampleStdev_def arithmeticMean_def reduce_sum Let_def)

subsection \<open>The quality factor\<close>

lemma qf_nonpos_wacc:
  "wacc' \<le> 0 \<Longrightarrow> calculateQualityFactor roic' wacc' default_minQf default_maxQf = 1"
  by (simp add: calculateQualityFactor_def default_maxQf_def)

lemma qf_pos_wacc:
  "0 < wacc' \<Longrightarrow> calculateQualityFactor roic' wacc' default_minQf default_maxQf
      = 0.7 + 0.3 * min 1 (roic' / wacc')"
  by (simp add: calculateQualityFactor_def default_minQf_def default_maxQf_def Let_def)

lemma qf_upper: "calculateQualityFactor roic' wacc' default_minQf default_maxQf \<le> 1"
proof (cases "wacc' \<le> 0")
  case True
  then show ?thesis by (simp add: qf_nonpos_wacc)
next
  case False
  have "min 1 (roic' / wacc') \<le> 1" by simp
  then have "0.7 + 0.3 * min 1 (roic' / wacc') \<le> (1::real)" by linarith
  with False show ?thesis by (simp add: qf_pos_wacc)
qed

lemma qf_lower:
  assumes "0 \<le> roic' \<or> wacc' \<le> 0"
  shows "0.7 \<le> calculateQualityFactor roic' wacc' default_minQf default_maxQf"
proof (cases "wacc' \<le> 0")
  case True
  then show ?thesis by (simp add: qf_nonpos_wacc)
next
  case False
  with assms have "0 \<le> roic' / wacc'" by simp
  then have "0 \<le> min 1 (roic' / wacc')" by simp
  then have "(0.7::real) \<le> 0.7 + 0.3 * min 1 (roic' / wacc')" by linarith
  with False show ?thesis by (simp add: qf_pos_wacc)
qed

lemma qf_below:
  assumes "roic' < 0" "0 < wacc'"
  shows "calculateQualityFactor roic' wacc' default_minQf default_maxQf < 0.7"
proof -
  from assms have "roic' / wacc' < 0" by (simp add: divide_less_0_iff)
  then have "min 1 (roic' / wacc') < 0" by simp
  then have "0.7 + 0.3 * min 1 (roic' / wacc') < (0.7::real)" by linarith
  with assms show ?thesis by (simp add: qf_pos_wacc)
qed

text \<open>
  C3, as the code has it: with the default bounds \<open>calculateQualityFactor\<close> returns 1.0
  when \<open>wacc \<le> 0\<close> and \<open>0.7 + 0.3 * min(1.0, roic/wacc)\<close> otherwise, for every roic
  and wacc. The value is at most 1.0; it is at least 0.7 when \<open>roic \<ge> 0\<close> or
  \<open>wacc \<le> 0\<close>, and below 0.7 when \<open>roic < 0 < wacc\<close>. In particular
  \<open>calculateQualityFactor(0, 10) = 0.7\<close> and \<open>calculateQualityFactor(r, 0) = 1.0\<close>.
\<close>

theorem calculateQualityFactor_formula_and_range:
  "(wacc' \<le> 0 \<longrightarrow> calculateQualityFactor roic' wacc' default_minQf default_maxQf = 1.0) \<and>
   (0 < wacc' \<longrightarrow> calculateQualityFactor roic' wacc' default_minQf default_maxQf
        = 0.7 + 0.3 * min 1.0 (roic' / wacc')) \<and>
   calculateQualityFactor roic' wacc' default_minQf default_maxQf \<le> 1.0 \<and>
   (0 \<le> roic' \<or> wacc' \<le> 0 \<longrightarrow>
      0.7 \<le> calculateQualityFactor roic' wacc' default_minQf default_maxQf) \<and>
   (roic' < 0 \<and> 0 < wacc' \<longrightarrow>
      calculateQualityFactor roic' wacc' default_minQf default_maxQf < 0.7) \<and>
   calculateQualityFactor 0 10 default_minQf default_maxQf = 0.7 \<and>
   calculateQualityFactor roic' 0 default_minQf default_maxQf = 1.0"
  using qf_upper [of roic' wacc'] qf_lower [of roic' wacc'] qf_below [of roic' wacc']
  by (simp add: qf_nonpos_wacc qf_pos_wacc)

text \<open>
  At roic 5 and wacc 20 the ratio is 0.25 and the factor 0.775; at wacc -1 the
  factor is 1.0; at roic -10 and wacc 10 it is below 0.7.
\<close>

theorem calculateQualityFactor_formula_and_range_witness:
  "(0::real) < 20 \<and> (0::real) \<le> 5 \<and>
   calculateQualityFactor 5 20 default_minQf default_maxQf = 0.775 \<and>
   (0.7::real) \<le> 0.775 \<and>
   (-1::real) \<le> 0 \<and> calculateQualityFactor 3 (-1) default_minQf default_maxQf = 1 \<and>
   (-10::real) < 0 \<and> (0::real) < 10 \<and>
   calculateQualityFactor (-10) 10 default_minQf default_maxQf < 0.7"
  using calculateQualityFactor_formula_and_range [of 20 5]
    calculateQualityFactor_formula_and_range [of "-1" 3]
    calculateQualityFactor_formula_and_range [of 10 "-10"]
  by simp

text \<open>
  C3 as stated fails for a negative roic: at roic -10 and wacc 10 the ratio is -1
  and the factor is 0.4, below 0.7.
\<close>

theorem calculateQualityFactor_range_counterexample:
  "calculateQualityFactor (-10) 10 default_minQf default_maxQf = 0.4 \<and>
   \<not> (0.7 \<le> calculateQualityFactor (-10) 10 default_minQf default_maxQf)"
  by (simp add: calculateQualityFactor_def default_minQf_def default_maxQf_def)

subsection \<open>The consistency factor\<close>

lemma cf_short:
  "length g < 2 \<Longrightarrow> calculateConsistencyFactor g default_minCf default_maxCf = 1"
  by (simp add: calculateConsistencyFactor_def default_maxCf_def)

lemma mean_eq2: "2 \<le> length g \<Longrightarrow> mean g = arithmeticMean g"
  by (rule mean_eq) auto

lemma cf_nonpos_mean:
  assumes "2 \<le> length g" "arithmeticMean g \<le> 0"
  shows "calculateConsistencyFactor g default_minCf default_maxCf = 0.5"
proof -
  from assms have "mean g \<le> 0" by (simp add: mean_eq2)
  with assms(1) show ?thesis
    by (simp add: calculateConsistencyFactor_def default_minCf_def)
qed

lemma cf_pos_mean:
  assumes "2 \<le> length g" "0 < arithmeticMean g"
  shows "calculateConsistencyFactor g default_minCf default_maxCf =
       clamp (1 - sampleStdev g / arithmeticMean g) 0.5 1"
proof -
  from assms have m: "\<not> mean g \<le> 0" by (simp add: mean_eq2)
  from assms(1) have l: "\<not> length g < 2" by simp
  show ?thesis
    unfolding calculateConsistencyFactor_def Let_def clamp_def default_minCf_def default_maxCf_def
    using l m by (simp add: mean_eq2 [OF assms(1)] stdev_eq [OF assms(1)])
qed

lemma clamp_bounds: "lo \<le> hi \<Longrightarrow> lo \<le> clamp x lo hi \<and> clamp x lo hi \<le> hi"
  by (simp add: clamp_def)

lemma cf_range:
  "0.5 \<le> calculateConsistencyFactor g default_minCf default_maxCf \<and>
   calculateConsistencyFactor g default_minCf default_maxCf \<le> 1"
proof -
  consider "length g < 2" | "2 \<le> length g" "arithmeticMean g \<le> 0"
    | "2 \<le> length g" "0 < arithmeticMean g"
    by linarith
  then show ?thesis
  proof cases
    case 1
    then show ?thesis by (simp add: cf_short)
  next
    case 2
    then show ?thesis by (simp add: cf_nonpos_mean)
  next
    case 3
    have "(0.5::real) \<le> 1" by simp
    from clamp_bounds [OF this] 3 show ?thesis by (simp add: cf_pos_mean)
  qed
qed

text \<open>
  The same function on doubles with overflow. A sum of finite numbers is exact,
  or has overflowed to an infinity and stays there.
\<close>

lemma threshold_bounds:
  "e308 < overflow_threshold" "overflow_threshold \<le> 2 * e308"
  "e308 \<le> MAX_VALUE" "MAX_VALUE < overflow_threshold"
  by (simp_all add: MAX_VALUE_def overflow_threshold_def e308_def)

lemma e308_ge: "1000 \<le> e308"
  by (simp add: e308_def)

lemma e200_bounds: "0 < e200" "4 * e200 \<le> e308" "2 * e308 \<le> e200\<^sup>2"
  by (simp_all add: e200_def e308_def)

lemma threshold_gt_1: "1 < overflow_threshold"
  using threshold_bounds(1) e308_ge by linarith

lemma fl_small: "\<bar>r\<bar> \<le> e308 \<Longrightarrow> fl r = Fin r"
  using threshold_bounds(1) unfolding fl_def by (auto simp only: abs_le_iff split: if_splits)

lemma fl_tiny: "\<bar>r\<bar> \<le> 1000 \<Longrightarrow> fl r = Fin r"
  using e308_ge by (intro fl_small) linarith

lemma fl_large:
  "2 * e308 \<le> r \<Longrightarrow> fl r = Infinity"
  "r \<le> - (2 * e308) \<Longrightarrow> fl r = NegInfinity"
  using threshold_bounds(2) threshold_gt_1 by (auto simp add: fl_def)

lemma fl_cases: "fl r = Infinity \<or> fl r = NegInfinity \<or> fl r = Fin r"
  by (simp add: fl_def)

lemma fl_nonneg_cases: "0 \<le> r \<Longrightarrow> fl r = Infinity \<or> fl r = Fin r"
  using threshold_gt_1 by (auto simp add: fl_def)

lemma fl_Fin: "fl r = Fin x \<Longrightarrow> x = r \<and> r < overflow_threshold"
  by (auto simp add: fl_def split: if_splits)

lemma fl_not_NaN: "fl r \<noteq> NaN"
  by (simp add: fl_def)

lemma fold_Infinity: "foldl add_d Infinity (map Fin g) = Infinity"
  by (induction g) simp_all

lemma fold_NegInfinity: "foldl add_d NegInfinity (map Fin g) = NegInfinity"
  by (induction g) simp_all

lemma fold_sum_cases:
  "foldl add_d (Fin a) (map Fin g) = Infinity \<or>
   foldl add_d (Fin a) (map Fin g) = NegInfinity \<or>
   foldl add_d (Fin a) (map Fin g) = Fin (a + sum_list g)"
proof (induction g arbitrary: a)
  case Nil
  then show ?case by simp
next
  case (Cons x g)
  from fl_cases [of "a + x"] show ?case
  proof (elim disjE)
    assume "fl (a + x) = Infinity"
    then show ?thesis by (simp add: fold_Infinity)
  next
    assume "fl (a + x) = NegInfinity"
    then show ?thesis by (simp add: fold_NegInfinity)
  next
    assume "fl (a + x) = Fin (a + x)"
    with Cons.IH [of "a + x"] show ?thesis by (simp add: add.assoc)
  qed
qed

lemma div_by_count:
  assumes "0 < n"
  shows "div_d Infinity (Fin n) = Infinity" "div_d NegInfinity (Fin n) = NegInfinity"
    "div_d (Fin a) (Fin n) = fl (a / n)"
  using assms by simp_all

lemma mean_d_cases:
  assumes "g \<noteq> []"
  shows "mean_d (map Fin g) = Infinity \<or> mean_d (map Fin g) = NegInfinity \<or>
         mean_d (map Fin g) = Fin (arithmeticMean g)"
proof -
  from assms have n: "0 < real (length g)" by simp
  have m: "mean_d (map Fin g) = div_d (foldl add_d (Fin 0) (map Fin g)) (Fin (real (length g)))"
    using assms by (simp add: mean_d_def)
  from fold_sum_cases [of 0 g] show ?thesis
  proof (elim disjE)
    assume "foldl add_d (Fin 0) (map Fin g) = Infinity"
    then show ?thesis by (simp add: m div_by_count [OF n])
  next
    assume "foldl add_d (Fin 0) (map Fin g) = NegInfinity"
    then show ?thesis by (simp add: m div_by_count [OF n])
  next
    assume "foldl add_d (Fin 0) (map Fin g) = Fin (0 + sum_list g)"
    then have "mean_d (map Fin g) = fl (arithmeticMean g)"
      using n by (simp add: m arithmeticMean_def)
    with fl_cases [of "arithmeticMean g"] show ?thesis by auto
  qed
qed

lemma mean_d_Fin:
  "g \<noteq> [] \<Longrightarrow> mean_d (map Fin g) = Fin m \<Longrightarrow> m = arithmeticMean g"
  using mean_d_cases [of g] by auto

text \<open>The squared deviations and their sum.\<close>

lemma sq_dev_Infinity: "square_d (sub_d (Fin v) Infinity) = Infinity"
  by (simp add: sub_d_def)

lemma sq_dev_cases:
  "square_d (sub_d (Fin v) (Fin m)) = Infinity \<or>
   square_d (sub_d (Fin v) (Fin m)) = Fin ((v - m)\<^sup>2)"
proof -
  have s: "sub_d (Fin v) (Fin m) = fl (v - m)" by (simp add: sub_d_def)
  from fl_cases [of "v - m"] show ?thesis
  proof (elim disjE)
    assume "fl (v - m) = Fin (v - m)"
    with fl_nonneg_cases [of "(v - m)\<^sup>2"] show ?thesis by (auto simp add: s)
  qed (simp_all add: s)
qed

lemma fold_Infinity_sq:
  "foldl add_d Infinity (map (\<lambda>v. square_d (sub_d (Fin v) (Fin m))) g) = Infinity"
proof (induction g)
  case Nil
  then show ?case by simp
next
  case (Cons x g)
  from sq_dev_cases [of x m] Cons show ?case by auto
qed

lemma fold_sq_cases:
  assumes "0 \<le> a"
  shows "foldl add_d (Fin a) (map (\<lambda>v. square_d (sub_d (Fin v) (Fin m))) g) = Infinity \<or>
         foldl add_d (Fin a) (map (\<lambda>v. square_d (sub_d (Fin v) (Fin m))) g) =
           Fin (a + (\<Sum>v\<leftarrow>g. (v - m)\<^sup>2))"
  using assms
proof (induction g arbitrary: a)
  case Nil
  then show ?case by simp
next
  case (Cons x g)
  from sq_dev_cases [of x m] show ?case
  proof
    assume "square_d (sub_d (Fin x) (Fin m)) = Infinity"
    then show ?thesis by (simp add: fold_Infinity_sq)
  next
    assume q: "square_d (sub_d (Fin x) (Fin m)) = Fin ((x - m)\<^sup>2)"
    from Cons.prems have nn: "0 \<le> a + (x - m)\<^sup>2" by simp
    from fl_nonneg_cases [OF nn] show ?thesis
    proof
      assume "fl (a + (x - m)\<^sup>2) = Infinity"
      then show ?thesis by (simp add: q fold_Infinity_sq)
    next
      assume "fl (a + (x - m)\<^sup>2) = Fin (a + (x - m)\<^sup>2)"
      with Cons.IH [OF nn] show ?thesis by (simp add: q add.assoc)
    qed
  qed
qed

lemma fold_all_Infinity:
  "g \<noteq> [] \<Longrightarrow> foldl add_d (Fin a) (map (\<lambda>v. square_d (sub_d (Fin v) Infinity)) g) = Infinity"
proof (induction g arbitrary: a)
  case Nil
  then show ?case by simp
next
  case (Cons x g)
  have "foldl add_d Infinity (map (\<lambda>v. square_d (sub_d (Fin v) Infinity)) g) = Infinity"
    by (induction g) (simp_all add: sq_dev_Infinity)
  then show ?case by (simp add: sq_dev_Infinity)
qed

lemma stdev_d_unfold:
  assumes "2 \<le> length g"
  shows "stdev_d (map Fin g) =
    sqrt_d (div_d (foldl add_d (Fin 0)
        (map (\<lambda>v. square_d (sub_d (Fin v) (mean_d (map Fin g)))) g))
      (Fin (real (length g) - 1)))"
proof -
  from assms have "g \<noteq> []" by auto
  with assms show ?thesis
    by (simp add: stdev_d_def mean_d_def Let_def comp_def)
qed

lemma stdev_d_overflowed_mean:
  assumes "2 \<le> length g" "mean_d (map Fin g) = Infinity"
  shows "stdev_d (map Fin g) = Infinity"
proof -
  from assms(1) have ne: "g \<noteq> []" and n: "\<not> real (length g) - 1 < 0" by auto
  show ?thesis
    unfolding stdev_d_unfold [OF assms(1)] assms(2)
    using n by (simp add: fold_all_Infinity [OF ne])
qed

lemma stdev_d_cases:
  assumes "2 \<le> length g" "mean_d (map Fin g) = Fin m"
  shows "stdev_d (map Fin g) = Infinity \<or> stdev_d (map Fin g) = Fin (sampleStdev g)"
proof -
  from assms(1) have ne: "g \<noteq> []" and n: "0 < real (length g) - 1" by auto
  from mean_d_Fin [OF ne assms(2)] have m: "m = arithmeticMean g" .
  let ?q = "\<Sum>v\<leftarrow>g. (v - m)\<^sup>2"
  have q0: "0 \<le> ?q" by (rule sum_list_nonneg) auto
  have v0: "0 \<le> ?q / (real (length g) - 1)" using q0 n by simp
  have z: "(0::real) \<le> 0" by simp
  from fold_sq_cases [OF z, where m = m and g = g]
  show ?thesis
  proof
    assume "foldl add_d (Fin 0) (map (\<lambda>v. square_d (sub_d (Fin v) (Fin m))) g) = Infinity"
    then show ?thesis
      unfolding stdev_d_unfold [OF assms(1)] assms(2) using n ne by simp
  next
    assume f: "foldl add_d (Fin 0) (map (\<lambda>v. square_d (sub_d (Fin v) (Fin m))) g) = Fin (0 + ?q)"
    from fl_nonneg_cases [OF v0] show ?thesis
    proof
      assume "fl (?q / (real (length g) - 1)) = Infinity"
      then show ?thesis
        unfolding stdev_d_unfold [OF assms(1)] assms(2) f using n ne by simp
    next
      assume "fl (?q / (real (length g) - 1)) = Fin (?q / (real (length g) - 1))"
      then have "stdev_d (map Fin g) = Fin (sqrt (?q / (real (length g) - 1)))"
        unfolding stdev_d_unfold [OF assms(1)] assms(2) f using n ne v0 by simp
      then show ?thesis by (simp add: sampleStdev_def m)
    qed
  qed
qed

lemma sampleStdev_nonneg: "2 \<le> length g \<Longrightarrow> 0 \<le> sampleStdev g"
  unfolding sampleStdev_def
  by (intro real_sqrt_ge_zero divide_nonneg_nonneg sum_list_nonneg) auto

lemma cf_default_short: "length g < 2 \<Longrightarrow> cf_default g = Fin 1"
  by (simp add: calculateConsistencyFactor_d_def default_maxCf_def)

lemma cf_default_overflowed_mean:
  assumes "2 \<le> length g" "mean_d (map Fin g) = Infinity"
  shows "cf_default g = NaN"
  using assms(1)
  by (simp add: calculateConsistencyFactor_d_def assms(2) stdev_d_overflowed_mean [OF assms]
        sub_d_def min_d_def max_d_def)

lemma cf_default_negative_overflow:
  assumes "2 \<le> length g" "mean_d (map Fin g) = NegInfinity"
  shows "cf_default g = Fin 0.5"
  using assms(1)
  by (simp add: calculateConsistencyFactor_d_def assms(2) default_minCf_def)

lemma cf_default_nonpos_mean:
  assumes "2 \<le> length g" "mean_d (map Fin g) = Fin m" "m \<le> 0"
  shows "cf_default g = Fin 0.5"
  using assms(1,3)
  by (simp add: calculateConsistencyFactor_d_def assms(2) default_minCf_def)

lemma cf_default_overflowed_deviation:
  assumes "2 \<le> length g" "mean_d (map Fin g) = Fin m" "0 < m" "stdev_d (map Fin g) = Infinity"
  shows "cf_default g = Fin 0.5"
  using assms(1,3)
  by (simp add: calculateConsistencyFactor_d_def assms(2,4) sub_d_def min_d_def max_d_def
        default_minCf_def default_maxCf_def)

lemma cf_default_exact:
  assumes "2 \<le> length g" "mean_d (map Fin g) = Fin m" "0 < m" "stdev_d (map Fin g) = Fin s"
  shows "s = sampleStdev g" "cf_default g = Fin (clamp (1 - s / m) 0.5 1)"
proof -
  from stdev_d_cases [OF assms(1,2)] assms(4) show s: "s = sampleStdev g" by simp
  with sampleStdev_nonneg [OF assms(1)] assms(3) have c0: "0 \<le> s / m" by simp
  have r: "cf_default g = max_d (Fin 0.5) (min_d (Fin 1) (sub_d (Fin 1) (fl (s / m))))"
    using assms(1,3)
    by (simp add: calculateConsistencyFactor_d_def assms(2,4) default_minCf_def
          default_maxCf_def)
  from fl_nonneg_cases [OF c0] show "cf_default g = Fin (clamp (1 - s / m) 0.5 1)"
  proof
    assume inf: "fl (s / m) = Infinity"
    then have "overflow_threshold \<le> s / m" by (simp add: fl_def split: if_splits)
    with threshold_gt_1 have "1 - s / m \<le> 0.5" by linarith
    then have "clamp (1 - s / m) 0.5 1 = 0.5" unfolding clamp_def by linarith
    then show ?thesis
      by (simp add: r inf sub_d_def min_d_def max_d_def)
  next
    assume fin: "fl (s / m) = Fin (s / m)"
    then have "s / m < overflow_threshold" by (simp add: fl_def split: if_splits)
    with c0 threshold_gt_1 have "fl (1 - s / m) = Fin (1 - s / m)"
      by (simp add: fl_def)
    then show ?thesis
      by (simp add: r fin sub_d_def min_d_def max_d_def clamp_def max_def min_def)
  qed
qed

lemma in_range_half:
  "x = Fin 0.5 \<Longrightarrow> x = NaN \<or> (\<exists>v. x = Fin v \<and> 0.5 \<le> v \<and> v \<le> 1)"
  by (rule disjI2, rule exI [of _ "0.5"]) simp

lemma cf_default_range: "cf_default g = NaN \<or> (\<exists>v. cf_default g = Fin v \<and> 0.5 \<le> v \<and> v \<le> 1)"
proof (cases "length g < 2")
  case True
  then show ?thesis by (simp add: cf_default_short)
next
  case False
  then have l: "2 \<le> length g" and ne: "g \<noteq> []" by auto
  from mean_d_cases [OF ne] show ?thesis
  proof (elim disjE)
    assume "mean_d (map Fin g) = Infinity"
    then show ?thesis by (simp add: cf_default_overflowed_mean [OF l])
  next
    assume "mean_d (map Fin g) = NegInfinity"
    then show ?thesis by (intro in_range_half cf_default_negative_overflow [OF l])
  next
    assume m: "mean_d (map Fin g) = Fin (arithmeticMean g)"
    show ?thesis
    proof (cases "arithmeticMean g \<le> 0")
      case True
      then show ?thesis by (intro in_range_half cf_default_nonpos_mean [OF l m])
    next
      case False
      then have pos: "0 < arithmeticMean g" by simp
      from stdev_d_cases [OF l m] show ?thesis
      proof
        assume "stdev_d (map Fin g) = Infinity"
        then show ?thesis by (intro in_range_half cf_default_overflowed_deviation [OF l m pos])
      next
        assume "stdev_d (map Fin g) = Fin (sampleStdev g)"
        note e = cf_default_exact(2) [OF l m pos this]
        have "(0.5::real) \<le> 1" by simp
        from clamp_bounds [OF this, of "1 - sampleStdev g / arithmeticMean g"]
        show ?thesis unfolding e by blast
      qed
    qed
  qed
qed

lemma cf_default_NaN_iff: "cf_default g = NaN \<longleftrightarrow> 2 \<le> length g \<and> mean_d (map Fin g) = Infinity"
proof
  assume nan: "cf_default g = NaN"
  show "2 \<le> length g \<and> mean_d (map Fin g) = Infinity"
  proof (rule ccontr)
    assume h: "\<not> (2 \<le> length g \<and> mean_d (map Fin g) = Infinity)"
    show False
    proof (cases "length g < 2")
      case True
      with nan show False by (simp add: cf_default_short)
    next
      case False
      then have l: "2 \<le> length g" and ne: "g \<noteq> []" by auto
      from mean_d_cases [OF ne] h l consider
        "mean_d (map Fin g) = NegInfinity" | "mean_d (map Fin g) = Fin (arithmeticMean g)"
        by blast
      then show False
      proof cases
        case 1
        with cf_default_negative_overflow [OF l] nan show False by simp
      next
        case 2
        show False
        proof (cases "arithmeticMean g \<le> 0")
          case True
          with cf_default_nonpos_mean [OF l 2] nan show False by simp
        next
          case False
          then have pos: "0 < arithmeticMean g" by simp
          from stdev_d_cases [OF l 2] show False
          proof
            assume "stdev_d (map Fin g) = Infinity"
            with cf_default_overflowed_deviation [OF l 2 pos] nan show False by simp
          next
            assume "stdev_d (map Fin g) = Fin (sampleStdev g)"
            with cf_default_exact(2) [OF l 2 pos] nan show False by simp
          qed
        qed
      qed
    qed
  qed
next
  assume "2 \<le> length g \<and> mean_d (map Fin g) = Infinity"
  then show "cf_default g = NaN" by (simp add: cf_default_overflowed_mean)
qed



lemma mean_d_examples:
  "mean_d [Fin 10, Fin 10, Fin 10] = Fin 10"
  "mean_d [Fin (-5), Fin (-5), Fin (-5)] = Fin (-5)"
  "mean_d [Fin 9, Fin 10, Fin 11] = Fin 10"
  by (simp_all add: mean_d_def fl_tiny)

lemma stdev_d_examples:
  "stdev_d [Fin 10, Fin 10, Fin 10] = Fin 0"
  "stdev_d [Fin 9, Fin 10, Fin 11] = Fin 1"
  by (simp_all add: stdev_d_def Let_def sub_d_def fl_tiny)

lemma sum_e308:
  "add_d (add_d (Fin 0) (Fin e308)) (Fin e308) = Infinity"
  "add_d (add_d (Fin 0) (Fin (- e308))) (Fin (- e308)) = NegInfinity"
proof -
  have a: "fl e308 = Fin e308" "fl (- e308) = Fin (- e308)"
    using e308_ge by (simp_all add: fl_small)
  have b: "fl (e308 + e308) = Infinity" "fl (- e308 + - e308) = NegInfinity"
    by (simp_all add: fl_large)
  show "add_d (add_d (Fin 0) (Fin e308)) (Fin e308) = Infinity"
    "add_d (add_d (Fin 0) (Fin (- e308))) (Fin (- e308)) = NegInfinity"
    using a b by simp_all
qed

lemma mean_d_overflow_examples:
  "mean_d [Fin e308, Fin e308] = Infinity"
  "mean_d [Fin (- e308), Fin (- e308)] = NegInfinity"
  by (simp_all add: mean_d_def sum_e308 del: add_d.simps)

lemma fl_e200:
  "fl e200 = Fin e200" "fl (4 * e200) = Fin (4 * e200)" "fl (2 * e200) = Fin (2 * e200)"
  "fl (- e200) = Fin (- e200)" "fl (e200\<^sup>2) = Infinity"
  using e200_bounds by (simp_all add: fl_small fl_large)

lemma mean_d_e200: "mean_d [Fin e200, Fin (3 * e200)] = Fin (2 * e200)"
proof -
  have "add_d (add_d (Fin 0) (Fin e200)) (Fin (3 * e200)) = Fin (4 * e200)"
    by (simp add: fl_e200)
  then show ?thesis by (simp add: mean_d_def fl_e200)
qed

lemma stdev_d_e200: "stdev_d [Fin e200, Fin (3 * e200)] = Infinity"
proof -
  have m: "div_d (add_d (add_d (Fin 0) (Fin e200)) (Fin (3 * e200))) (Fin 2) = Fin (2 * e200)"
    using mean_d_e200 by (simp add: mean_d_def)
  have d: "square_d (sub_d (Fin e200) (Fin (2 * e200))) = Infinity"
    "square_d (sub_d (Fin (3 * e200)) (Fin (2 * e200))) = Infinity"
    by (simp_all add: sub_d_def fl_e200)
  show ?thesis
    by (simp add: stdev_d_def Let_def m d del: add_d.simps) simp
qed

lemma models_agree:
  assumes "mean_d (map Fin g) = Fin m" "stdev_d (map Fin g) = Fin s"
  shows "cf_default g = Fin (calculateConsistencyFactor g default_minCf default_maxCf)"
proof (cases "length g < 2")
  case True
  then show ?thesis by (simp add: cf_default_short cf_short)
next
  case False
  then have l: "2 \<le> length g" and ne: "g \<noteq> []" by auto
  from mean_d_Fin [OF ne assms(1)] have m: "m = arithmeticMean g" .
  show ?thesis
  proof (cases "m \<le> 0")
    case True
    with cf_default_nonpos_mean [OF l assms(1)] cf_nonpos_mean [OF l] m show ?thesis by simp
  next
    case False
    then have pos: "0 < m" by simp
    from cf_default_exact [OF l assms(1) pos assms(2)] cf_pos_mean [OF l] pos m
    show ?thesis by simp
  qed
qed

text \<open>
  Where the function keeps its range. For every series \<open>g\<close> of finite numbers,
  \<open>calculateConsistencyFactor\<close> with the default bounds returns a value in
  [0.5, 1.0] or NaN, and NaN exactly when \<open>g\<close> has at least 2 elements and its sum
  overflows to +Infinity. It returns 1.0 when \<open>g\<close> has fewer than 2 elements; 0.5
  when the sum overflows to -Infinity or the mean, computed without overflow, is at
  most 0; and for a mean above 0, 1 minus the sample standard deviation (dividing
  by \<open>n - 1\<close>) over the mean, clamped to [0.5, 1.0], when the deviation is computed
  without overflow, and 0.5 when it overflows. It is 1.0 on [10, 10, 10] and 0.5 on
  [-5, -5, -5].
\<close>

lemma cf_default_cases:
  "(cf_default g = NaN \<or> (\<exists>v. cf_default g = Fin v \<and> 0.5 \<le> v \<and> v \<le> 1)) \<and>
   (cf_default g = NaN) = (2 \<le> length g \<and> mean_d (map Fin g) = Infinity) \<and>
   (length g < 2 \<longrightarrow> cf_default g = Fin 1) \<and>
   (2 \<le> length g \<and> mean_d (map Fin g) = NegInfinity \<longrightarrow> cf_default g = Fin 0.5) \<and>
   (2 \<le> length g \<and> mean_d (map Fin g) = Fin m \<longrightarrow> m = arithmeticMean g) \<and>
   (2 \<le> length g \<and> mean_d (map Fin g) = Fin m \<and> m \<le> 0 \<longrightarrow> cf_default g = Fin 0.5) \<and>
   (2 \<le> length g \<and> mean_d (map Fin g) = Fin m \<and> 0 < m \<and> stdev_d (map Fin g) = Fin s \<longrightarrow>
      s = sampleStdev g \<and> cf_default g = Fin (clamp (1 - s / m) 0.5 1)) \<and>
   (2 \<le> length g \<and> mean_d (map Fin g) = Fin m \<and> 0 < m \<and> stdev_d (map Fin g) = Infinity \<longrightarrow>
      cf_default g = Fin 0.5) \<and>
   cf_default [10, 10, 10] = Fin 1 \<and>
   cf_default [-5, -5, -5] = Fin 0.5"
proof -
  have l3: "2 \<le> length [a, b, c]" for a b c :: real by simp
  have m1: "mean_d (map Fin [10, 10, 10]) = Fin 10"
    and s1: "stdev_d (map Fin [10, 10, 10]) = Fin 0"
    and m2: "mean_d (map Fin [-5, -5, -5]) = Fin (-5)"
    by (simp_all add: mean_d_examples stdev_d_examples)
  have p: "(0::real) < 10" and n: "(-5::real) \<le> 0" by simp_all
  have "clamp (1 - 0 / 10) 0.5 1 = 1" by (simp add: clamp_def)
  with cf_default_exact(2) [OF l3 m1 p s1] have ex1: "cf_default [10, 10, 10] = Fin 1" by simp
  from cf_default_nonpos_mean [OF l3 m2 n] have ex2: "cf_default [-5, -5, -5] = Fin 0.5" .
  have mean: "2 \<le> length g \<and> mean_d (map Fin g) = Fin m \<longrightarrow> m = arithmeticMean g"
    using mean_d_Fin [of g m] by (cases g) auto
  from cf_default_range [of g] cf_default_NaN_iff [of g] cf_default_short [of g] cf_default_negative_overflow [of g]
    mean cf_default_nonpos_mean [of g m] cf_default_exact [of g m s] cf_default_overflowed_deviation [of g m]
    ex1 ex2
  show ?thesis by blast
qed

text \<open>
  Each case at a series: [7] (too short), [-5, -5, -5] (mean -5), [9, 10, 11]
  (mean 10, deviation 1, factor 0.9), [-1e308, -1e308] (the sum overflows to
  -Infinity) and [1e200, 3e200] (mean 2e200, the squared deviations overflow).
\<close>

lemma cf_default_cases_examples:
  "length [7::real] < 2 \<and> cf_default [7] = Fin 1 \<and>
   2 \<le> length [-5, -5, -5::real] \<and> mean_d (map Fin [-5, -5, -5]) = Fin (-5) \<and>
   (-5::real) \<le> 0 \<and> arithmeticMean [-5, -5, -5] = -5 \<and> cf_default [-5, -5, -5] = Fin 0.5 \<and>
   2 \<le> length [9, 10, 11::real] \<and> mean_d (map Fin [9, 10, 11]) = Fin 10 \<and> (0::real) < 10 \<and>
   stdev_d (map Fin [9, 10, 11]) = Fin 1 \<and> sampleStdev [9, 10, 11] = 1 \<and>
   cf_default [9, 10, 11] = Fin 0.9 \<and>
   2 \<le> length [- e308, - e308] \<and>
   mean_d (map Fin [- e308, - e308]) = NegInfinity \<and>
   cf_default [- e308, - e308] = Fin 0.5 \<and>
   2 \<le> length [e200, 3 * e200] \<and>
   mean_d (map Fin [e200, 3 * e200]) = Fin (2 * e200) \<and> 0 < 2 * e200 \<and>
   stdev_d (map Fin [e200, 3 * e200]) = Infinity \<and>
   cf_default [e200, 3 * e200] = Fin 0.5"
proof -
  have m2: "mean_d (map Fin [-5, -5, -5]) = Fin (-5)"
    and m3: "mean_d (map Fin [9, 10, 11]) = Fin 10"
    and s3: "stdev_d (map Fin [9, 10, 11]) = Fin 1"
    and m4: "mean_d (map Fin [- e308, - e308]) = NegInfinity"
    and m5: "mean_d (map Fin [e200, 3 * e200]) = Fin (2 * e200)"
    and s5: "stdev_d (map Fin [e200, 3 * e200]) = Infinity"
    by (simp_all add: mean_d_examples stdev_d_examples mean_d_overflow_examples mean_d_e200
          stdev_d_e200)
  have p5: "0 < 2 * e200" using e200_bounds(1) by simp
  note short = cf_default_cases [where g = "[7]" and m = 0 and s = 0]
  note nonpos = cf_default_cases [where g = "[-5, -5, -5]" and m = "-5" and s = 0]
  note exact = cf_default_cases [where g = "[9, 10, 11]" and m = 10 and s = 1]
  note neg = cf_default_cases [where g = "[- e308, - e308]" and m = 0 and s = 0]
  note dev = cf_default_cases [where g = "[e200, 3 * e200]" and m = "2 * e200" and s = 0]
  have a: "cf_default [7] = Fin 1" using short by simp
  have b: "arithmeticMean [-5, -5, -5] = -5" by (simp add: arithmeticMean_def)
  have c: "cf_default [-5, -5, -5] = Fin 0.5" using nonpos by blast
  have l3: "2 \<le> length [9, 10, 11::real]" and p3: "(0::real) < 10" by simp_all
  from exact l3 m3 p3 s3
  have d: "1 = sampleStdev [9, 10, 11] \<and> cf_default [9, 10, 11] = Fin (clamp (1 - 1 / 10) 0.5 1)"
    by blast
  have d': "clamp (1 - 1 / 10) 0.5 1 = 0.9" by (simp add: clamp_def)
  have l2: "2 \<le> length [x, y]" for x y :: real by simp
  from neg l2 m4 have e: "cf_default [- e308, - e308] = Fin 0.5" by blast
  from dev l2 m5 p5 s5 have f: "cf_default [e200, 3 * e200] = Fin 0.5" by blast
  from a b c d d' e f m2 m3 s3 m4 m5 s5 p5 show ?thesis by simp
qed

text \<open>
  C6 fails in the code on the finite series [1e308, 1e308]. The claim gives 1.0
  there (the mean is 1e308, above 0, and the deviation is 0), and the function's
  own comment says the result is capped between \<open>minCf\<close> and \<open>maxCf\<close>. In the code
  the sum overflows to Infinity, so do the mean and the deviation, their quotient is
  NaN, and the result is NaN, which is neither at least 0.5 nor at most 1.0.
\<close>

theorem calculateConsistencyFactor_overflow_NaN:
  "e308 = 10 ^ 308 \<and> \<bar>e308\<bar> \<le> MAX_VALUE \<and>
   0 < arithmeticMean [e308, e308] \<and>
   clamp (1 - sampleStdev [e308, e308] / arithmeticMean [e308, e308]) 0.5 1 = 1 \<and>
   mean_d (map Fin [e308, e308]) = Infinity \<and>
   stdev_d (map Fin [e308, e308]) = Infinity \<and>
   cf_default [e308, e308] = NaN \<and>
   \<not> le_d (Fin 0.5) (cf_default [e308, e308]) \<and>
   \<not> le_d (cf_default [e308, e308]) (Fin 1)"
proof -
  have l: "2 \<le> length [e308, e308]" by simp
  have m: "mean_d (map Fin [e308, e308]) = Infinity"
    by (simp add: mean_d_overflow_examples)
  have v: "e308 = 10 ^ 308" by (simp add: e308_def)
  have am: "arithmeticMean [e308, e308] = e308" by (simp add: arithmeticMean_def)
  have sd: "sampleStdev [e308, e308] = 0" by (simp add: sampleStdev_def am)
  have pos: "0 < e308" using e308_ge by linarith
  have exact: "0 < arithmeticMean [e308, e308] \<and>
      clamp (1 - sampleStdev [e308, e308] / arithmeticMean [e308, e308]) 0.5 1 = 1"
    using pos by (simp add: am sd clamp_def)
  have "\<bar>e308\<bar> \<le> MAX_VALUE" using threshold_bounds(3) pos by simp
  with m stdev_d_overflowed_mean [OF l m] cf_default_overflowed_mean [OF l m]
  have "\<bar>e308\<bar> \<le> MAX_VALUE \<and>
   mean_d (map Fin [e308, e308]) = Infinity \<and>
   stdev_d (map Fin [e308, e308]) = Infinity \<and>
   cf_default [e308, e308] = NaN \<and>
   \<not> le_d (Fin 0.5) (cf_default [e308, e308]) \<and>
   \<not> le_d (cf_default [e308, e308]) (Fin 1)"
    by simp
  with v exact show ?thesis by blast
qed

subsection \<open>The interpretation\<close>

text \<open>
  C7: \<open>interpretGrowthIndex\<close> is defined on every real, and its label follows five
  bands closed on the lower bound: from 40 up Exceptional Growth, from 25 to below 40
  Strong Growth, from 15 to below 25 Moderate Growth, from 5 to below 15 Low Growth,
  below 5 Declining/Stagnant; so 40 is Exceptional Growth, 39.99 Strong Growth and
  -1 Declining/Stagnant.
\<close>

theorem interpretGrowthIndex_bands:
  "(40 \<le> gi \<longrightarrow> label (interpretGrowthIndex gi) = ''Exceptional Growth'') \<and>
   (25 \<le> gi \<and> gi < 40 \<longrightarrow> label (interpretGrowthIndex gi) = ''Strong Growth'') \<and>
   (15 \<le> gi \<and> gi < 25 \<longrightarrow> label (interpretGrowthIndex gi) = ''Moderate Growth'') \<and>
   (5 \<le> gi \<and> gi < 15 \<longrightarrow> label (interpretGrowthIndex gi) = ''Low Growth'') \<and>
   (gi < 5 \<longrightarrow> label (interpretGrowthIndex gi) = ''Declining/Stagnant'') \<and>
   label (interpretGrowthIndex 40) = ''Exceptional Growth'' \<and>
   label (interpretGrowthIndex 39.99) = ''Strong Growth'' \<and>
   label (interpretGrowthIndex (-1)) = ''Declining/Stagnant''"
  by (simp add: interpretGrowthIndex_def)

text \<open>One score in each band: 45, 30, 20, 10 and 0.\<close>

theorem interpretGrowthIndex_bands_witness:
  "(40::real) \<le> 45 \<and> label (interpretGrowthIndex 45) = ''Exceptional Growth'' \<and>
   (25::real) \<le> 30 \<and> (30::real) < 40 \<and> label (interpretGrowthIndex 30) = ''Strong Growth'' \<and>
   (15::real) \<le> 20 \<and> (20::real) < 25 \<and> label (interpretGrowthIndex 20) = ''Moderate Growth'' \<and>
   (5::real) \<le> 10 \<and> (10::real) < 15 \<and> label (interpretGrowthIndex 10) = ''Low Growth'' \<and>
   (0::real) < 5 \<and> label (interpretGrowthIndex 0) = ''Declining/Stagnant''"
  using interpretGrowthIndex_bands [of 45] interpretGrowthIndex_bands [of 30]
    interpretGrowthIndex_bands [of 20] interpretGrowthIndex_bands [of 10]
    interpretGrowthIndex_bands [of 0]
  by simp


subsection \<open>The WACC estimate\<close>

lemma estimateWACC_nonzero: "b \<noteq> 0 \<Longrightarrow> estimateWACC b = 4.5 + clamp b 0.5 2.5 * 5.5"
  by (simp add: estimateWACC_def clamp_def)

lemma estimateWACC_zero: "estimateWACC 0 = 4.5 + clamp 1 0.5 2.5 * 5.5"
  by (simp add: estimateWACC_def clamp_def)

lemma estimateWACC_range: "7.25 \<le> estimateWACC b \<and> estimateWACC b \<le> 18.25"
proof -
  define c where "c = max 0.5 (min 2.5 (if b = 0 then 1 else b))"
  have "0.5 \<le> c" "c \<le> 2.5" by (simp_all add: c_def)
  moreover have "estimateWACC b = 4.5 + c * 5.5" by (simp add: estimateWACC_def c_def)
  ultimately show ?thesis by simp
qed

lemma wacc_deriveMetrics:
  "wacc (deriveMetrics income cashFlow summary) = estimateWACC (or_num (beta summary) 1)"
  by (simp add: deriveMetrics_def Let_def)

text \<open>
  C9, as the code has it: for every beta other than 0 the estimate is
  \<open>4.5 + clamp(beta, 0.5, 2.5) * 5.5\<close>; a beta of 0 is taken for a missing one and
  replaced by 1.0, as an absent beta is in the pipeline; the estimate is always in
  [7.25, 18.25].
\<close>

theorem estimateWACC_formula_and_range:
  "(b \<noteq> 0 \<longrightarrow> estimateWACC b = 4.5 + clamp b 0.5 2.5 * 5.5) \<and>
   estimateWACC 0 = 4.5 + clamp 1 0.5 2.5 * 5.5 \<and>
   7.25 \<le> estimateWACC b \<and> estimateWACC b \<le> 18.25 \<and>
   wacc (deriveMetrics income cashFlow summary) =
     estimateWACC (case beta summary of None \<Rightarrow> 1 | Some v \<Rightarrow> if v = 0 then 1 else v)"
  using estimateWACC_range [of b]
  by (simp add: estimateWACC_nonzero estimateWACC_zero wacc_deriveMetrics or_num_def)

text \<open>A beta of 3 is clamped to 2.5 (18.25); a beta of 1.2 gives 11.1.\<close>

theorem estimateWACC_formula_and_range_witness:
  "(3::real) \<noteq> 0 \<and> estimateWACC 3 = 18.25 \<and> (1.2::real) \<noteq> 0 \<and> estimateWACC 1.2 = 11.1"
  using estimateWACC_formula_and_range [of 3] estimateWACC_formula_and_range [of "1.2"]
  by (simp add: clamp_def)

text \<open>
  C9 as stated fails at beta 0: the code estimates 10 (beta replaced by 1), the
  formula with beta clamped to 0.5 gives 7.25.
\<close>

theorem estimateWACC_zero_beta_counterexample:
  "estimateWACC 0 = 10 \<and> 4.5 + clamp 0 0.5 2.5 * 5.5 = (7.25::real) \<and>
   estimateWACC 0 \<noteq> 4.5 + clamp 0 0.5 2.5 * 5.5"
  by (simp add: estimateWACC_def clamp_def)


subsection \<open>The derivation pipeline\<close>

lemma fetchCompanyData_Inr:
  assumes "fetchCompanyData q t = Inr d"
  shows "\<exists>s income cashFlow.
           q t = Inr s \<and> incomeStatementHistory s = Some income \<and>
           cashflowStatements s = Some cashFlow \<and> 4 \<le> length income \<and> 4 \<le> length cashFlow"
  using assms unfolding fetchCompanyData_def
  by (auto split: sum.splits option.splits if_splits)

lemma fetchCompanyData_success:
  assumes "q t = Inr s" "incomeStatementHistory s = Some income"
    "cashflowStatements s = Some cashFlow" "4 \<le> length income" "4 \<le> length cashFlow"
  shows "fetchCompanyData q t =
    Inr \<lparr>out_ticker = toUpperCase t,
         out_name = or_str (longName s) (or_str (shortName s) t),
         out_growthIndex =
           growthIndex (calculateGrowthIndex (deriveMetrics income cashFlow s) DEFAULT_WEIGHTS),
         out_baseScore =
           baseScore (calculateGrowthIndex (deriveMetrics income cashFlow s) DEFAULT_WEIGHTS),
         out_consistencyFactor =
           consistencyFactor (calculateGrowthIndex (deriveMetrics income cashFlow s) DEFAULT_WEIGHTS),
         out_qualityFactor =
           qualityFactor (calculateGrowthIndex (deriveMetrics income cashFlow s) DEFAULT_WEIGHTS),
         out_metrics =
           \<lparr>m_revenueCagr = Math_round (revenueCagr (deriveMetrics income cashFlow s) * 10) / 10,
            m_epsCagr = Math_round (epsCagr (deriveMetrics income cashFlow s) * 10) / 10,
            m_fcfCagr = Math_round (fcfCagr (deriveMetrics income cashFlow s) * 10) / 10,
            m_marginDelta = Math_round (marginDelta (deriveMetrics income cashFlow s) * 10) / 10,
            m_roic = Math_round (roic (deriveMetrics income cashFlow s) * 10) / 10,
            m_wacc = Math_round (wacc (deriveMetrics income cashFlow s) * 10) / 10\<rparr>,
         out_interpretation =
           interpretGrowthIndex
             (growthIndex (calculateGrowthIndex (deriveMetrics income cashFlow s) DEFAULT_WEIGHTS)),
         out_weights = \<lparr>revenue = 0.30, eps = 0.25, fcf = 0.25, margin = 0.20\<rparr>\<rparr>"
  using assms unfolding fetchCompanyData_def
  by (auto simp add: Let_def)

lemma fetchCompanyData_Inr_fields:
  assumes "fetchCompanyData q t = Inr d"
  shows "\<exists>s income cashFlow.
           q t = Inr s \<and> incomeStatementHistory s = Some income \<and>
           cashflowStatements s = Some cashFlow \<and> 4 \<le> length income \<and> 4 \<le> length cashFlow \<and>
           out_metrics d =
             \<lparr>m_revenueCagr = Math_round (revenueCagr (deriveMetrics income cashFlow s) * 10) / 10,
              m_epsCagr = Math_round (epsCagr (deriveMetrics income cashFlow s) * 10) / 10,
              m_fcfCagr = Math_round (fcfCagr (deriveMetrics income cashFlow s) * 10) / 10,
              m_marginDelta = Math_round (marginDelta (deriveMetrics income cashFlow s) * 10) / 10,
              m_roic = Math_round (roic (deriveMetrics income cashFlow s) * 10) / 10,
              m_wacc = Math_round (wacc (deriveMetrics income cashFlow s) * 10) / 10\<rparr> \<and>
           out_baseScore d =
             baseScore (calculateGrowthIndex (deriveMetrics income cashFlow s) DEFAULT_WEIGHTS) \<and>
           out_growthIndex d =
             growthIndex (calculateGrowthIndex (deriveMetrics income cashFlow s) DEFAULT_WEIGHTS)"
proof -
  from fetchCompanyData_Inr [OF assms] obtain s income cashFlow where
    h: "q t = Inr s" "incomeStatementHistory s = Some income"
       "cashflowStatements s = Some cashFlow" "4 \<le> length income" "4 \<le> length cashFlow"
    by blast
  from fetchCompanyData_success [of q t, OF h] assms have
    "out_metrics d =
       \<lparr>m_revenueCagr = Math_round (revenueCagr (deriveMetrics income cashFlow s) * 10) / 10,
        m_epsCagr = Math_round (epsCagr (deriveMetrics income cashFlow s) * 10) / 10,
        m_fcfCagr = Math_round (fcfCagr (deriveMetrics income cashFlow s) * 10) / 10,
        m_marginDelta = Math_round (marginDelta (deriveMetrics income cashFlow s) * 10) / 10,
        m_roic = Math_round (roic (deriveMetrics income cashFlow s) * 10) / 10,
        m_wacc = Math_round (wacc (deriveMetrics income cashFlow s) * 10) / 10\<rparr>"
    "out_baseScore d =
       baseScore (calculateGrowthIndex (deriveMetrics income cashFlow s) DEFAULT_WEIGHTS)"
    "out_growthIndex d =
       growthIndex (calculateGrowthIndex (deriveMetrics income cashFlow s) DEFAULT_WEIGHTS)"
    by auto
  with h show ?thesis by blast
qed

text \<open>The sample provider: ACME succeeds, NEWCO and unknown symbols fail.\<close>

lemma cube_root_8: "(8::real) powr (1 / 3) = 2"
proof -
  have "(8::real) = 2 powr 3" by simp
  then have "(8::real) powr (1 / 3) = (2 powr 3) powr (1 / 3)" by simp
  also have "\<dots> = 2 powr (3 * (1 / 3))" by (rule powr_powr)
  also have "\<dots> = 2" by simp
  finally show ?thesis .
qed

lemma deriveMetrics_acme:
  "deriveMetrics acme_income acme_cashFlow acme_summary =
     \<lparr>revenueCagr = 100, epsCagr = 50, fcfCagr = -50, marginDelta = -6.25,
      annualRevenueGrowth = [100, 100, 100], roic = 15, wacc = 10\<rparr>"
  by (simp add: deriveMetrics_def acme_income_def acme_cashFlow_def acme_summary_def Let_def
        rev_y_def opInc_def eps_y_def fcf_c_def or_num_def calcCAGR_def calcYoY_def
        estimateWACC_def Math_pow_def cube_root_8)

lemma cf_flat_100: "calculateConsistencyFactor [100, 100, 100] default_minCf default_maxCf = 1"
  by (simp add: calculateConsistencyFactor_def mean_def stdev_def default_minCf_def
        default_maxCf_def)

lemma qf_15_10: "calculateQualityFactor 15 10 default_minQf default_maxQf = 1"
  by (simp add: calculateQualityFactor_def default_minQf_def default_maxQf_def)

lemma calculateGrowthIndex_acme:
  "calculateGrowthIndex (deriveMetrics acme_income acme_cashFlow acme_summary) DEFAULT_WEIGHTS =
   \<lparr>growthIndex = 39.06, baseScore = 39.06, consistencyFactor = 1, qualityFactor = 1,
    components = \<lparr>revenue = 35, eps = 15, fcf = -10, margin = -0.94\<rparr>\<rparr>"
  by (simp add: deriveMetrics_acme calculateGrowthIndex_def DEFAULT_WEIGHTS_def Let_def
        cf_flat_100 qf_15_10 Math_round_def)

lemma fetch_acme: "fetchCompanyData sample_provider ''ACME'' = Inr acme_data"
proof -
  have p1: "sample_provider ''ACME'' = Inr acme_summary"
    by (simp add: sample_provider_def)
  have p2: "incomeStatementHistory acme_summary = Some acme_income"
    and p3: "cashflowStatements acme_summary = Some acme_cashFlow"
    by (simp_all add: acme_summary_def)
  have p4: "4 \<le> length acme_income" and p5: "4 \<le> length acme_cashFlow"
    by (simp_all add: acme_income_def acme_cashFlow_def)
  note run = fetchCompanyData_success [of sample_provider "''ACME''", OF p1 p2 p3 p4 p5]
  have up: "toUpperCase ''ACME'' = ''ACME''"
    by (simp add: toUpperCase_def upper_char_def)
  have nm: "or_str (longName acme_summary) (or_str (shortName acme_summary) ''ACME'')
      = ''Acme Corporation''"
    by (simp add: acme_summary_def or_str_def)
  show ?thesis
    unfolding run calculateGrowthIndex_acme
    unfolding deriveMetrics_acme up nm
    by (simp add: acme_data_def Math_round_def)
qed

lemma normalise_tickers:
  "toUpperCase (trim ''acme'') = ''ACME''"
  "toUpperCase (trim '' newco '') = ''NEWCO''"
  "toUpperCase (trim ''zzz'') = ''ZZZ''"
  "toUpperCase '' newco '' = '' NEWCO ''"
  "toUpperCase ''zzz'' = ''ZZZ''"
  by (simp_all add: toUpperCase_def trim_def upper_char_def is_space_def char_of_def
        bit_Suc_0_iff)

lemma fetch_newco:
  "fetchCompanyData sample_provider ''NEWCO'' = Inl ''Need 4yr data for NEWCO, got 2''"
  by (simp add: fetchCompanyData_def sample_provider_def newco_summary_def acme_income_def)

lemma fetch_zzz:
  "fetchCompanyData sample_provider ''ZZZ'' = Inl ''Quote not found for symbol: ZZZ''"
  by (simp add: fetchCompanyData_def sample_provider_def)

subsection \<open>Rounding\<close>

lemma Math_round_nonneg: "0 \<le> x \<Longrightarrow> Math_round x = round_half_away_from_zero x"
  by (cases "x = 0") (simp_all add: Math_round_def round_half_away_from_zero_def)

lemma floor_one_minus_non_int:
  fixes y :: real
  assumes "y \<notin> \<int>"
  shows "\<lfloor>1 - y\<rfloor> = - \<lfloor>y\<rfloor>"
proof -
  have "\<lceil>y\<rceil> = \<lfloor>y\<rfloor> + 1"
    using assms by (metis Ints_of_int ceiling_altdef)
  moreover have "1 - y = - y + of_int 1" by simp
  then have "\<lfloor>1 - y\<rfloor> = \<lfloor>- y\<rfloor> + 1" by (simp only: floor_add_int)
  then have "\<lfloor>1 - y\<rfloor> = 1 - \<lceil>y\<rceil>"
    by (simp add: ceiling_def)
  ultimately show ?thesis by simp
qed

lemma Math_round_no_tie:
  assumes "x + 1 / 2 \<notin> \<int>"
  shows "Math_round x = round_half_away_from_zero x"
proof (cases "0 \<le> x")
  case True
  then show ?thesis by (rule Math_round_nonneg)
next
  case False
  have "- x + 1 / 2 = 1 - (x + 1 / 2)" by simp
  then have "\<lfloor>- x + 1 / 2\<rfloor> = - \<lfloor>x + 1 / 2\<rfloor>"
    using floor_one_minus_non_int [OF assms] by simp
  with False show ?thesis
    by (simp add: Math_round_def round_half_away_from_zero_def)
qed

lemma Math_round_negative_tie:
  assumes "x < 0" "x + 1 / 2 \<in> \<int>"
  shows "Math_round x = round_half_away_from_zero x + 1"
proof -
  from assms(2) obtain k :: int where k: "x + 1 / 2 = of_int k" by (auto elim: Ints_cases)
  then have "- x + 1 / 2 = of_int (1 - k)" by simp
  then have "\<lfloor>- x + 1 / 2\<rfloor> = 1 - k" by (metis floor_of_int)
  moreover from k have "\<lfloor>x + 1 / 2\<rfloor> = k" by simp
  ultimately show ?thesis
    using assms(1) by (simp add: Math_round_def round_half_away_from_zero_def)
qed



subsection \<open>The growth rate and its arguments\<close>

lemma deriveMetrics_cagr_arguments:
  "revenueCagr (deriveMetrics income cashFlow summary) =
     calcCAGR (rev_y (income ! 3)) (rev_y (income ! 0)) 3"
  "epsCagr (deriveMetrics income cashFlow summary) =
     calcCAGR (eps_y (income ! 3)) (eps_y (income ! 0)) 3"
  "fcfCagr (deriveMetrics income cashFlow summary) =
     calcCAGR (fcf_c (cashFlow ! 3)) (fcf_c (cashFlow ! 0)) 3"
  by (simp_all add: deriveMetrics_def Let_def)

text \<open>
  C1: \<open>calcCAGR\<close> is the piecewise value of the specification, the conditions read
  in order: 0 when \<open>years \<le> 0\<close> or \<open>start = 0\<close>; otherwise the linear forms for
  a start below 0 with an end above 0, a start above 0 with an end below 0, and both
  below 0; and the compound form \<open>((end/start)^(1/years) - 1) * 100\<close> in what
  remains (a start above 0 with an end of at least 0, or an end of 0). In the
  pipeline the start is read at index 3 (the oldest year) and the end at index 0
  (the newest), for revenue, earnings and free cash flow, and a successful lookup
  reports these rates rounded to one decimal.
\<close>

theorem calcCAGR_piecewise_and_arguments:
  "(years \<le> 0 \<or> start = 0 \<longrightarrow> calcCAGR start end' years = 0) \<and>
   (0 < years \<and> start < 0 \<and> 0 < end' \<longrightarrow>
      calcCAGR start end' years = ((end' - start) / \<bar>start\<bar>) * 100 / years) \<and>
   (0 < years \<and> 0 < start \<and> end' < 0 \<longrightarrow>
      calcCAGR start end' years = ((end' - start) / start) * 100 / years) \<and>
   (0 < years \<and> start < 0 \<and> end' < 0 \<longrightarrow>
      calcCAGR start end' years = ((\<bar>start\<bar> - \<bar>end'\<bar>) / \<bar>start\<bar>) * 100 / years) \<and>
   (0 < years \<and> start \<noteq> 0 \<and> (0 < start \<and> 0 \<le> end' \<or> end' = 0) \<longrightarrow>
      calcCAGR start end' years = ((end' / start) powr (1 / years) - 1) * 100) \<and>
   revenueCagr (deriveMetrics income cashFlow summary) =
     calcCAGR (rev_y (income ! 3)) (rev_y (income ! 0)) 3 \<and>
   epsCagr (deriveMetrics income cashFlow summary) =
     calcCAGR (eps_y (income ! 3)) (eps_y (income ! 0)) 3 \<and>
   fcfCagr (deriveMetrics income cashFlow summary) =
     calcCAGR (fcf_c (cashFlow ! 3)) (fcf_c (cashFlow ! 0)) 3 \<and>
   (fetchCompanyData q t = Inr d \<longrightarrow>
      (\<exists>s inc cfs.
         q t = Inr s \<and> incomeStatementHistory s = Some inc \<and>
         cashflowStatements s = Some cfs \<and> 4 \<le> length inc \<and> 4 \<le> length cfs \<and>
         m_revenueCagr (out_metrics d) =
           Math_round (calcCAGR (rev_y (inc ! 3)) (rev_y (inc ! 0)) 3 * 10) / 10 \<and>
         m_epsCagr (out_metrics d) =
           Math_round (calcCAGR (eps_y (inc ! 3)) (eps_y (inc ! 0)) 3 * 10) / 10 \<and>
         m_fcfCagr (out_metrics d) =
           Math_round (calcCAGR (fcf_c (cfs ! 3)) (fcf_c (cfs ! 0)) 3 * 10) / 10))"
proof -
  have piecewise:
    "(years \<le> 0 \<or> start = 0 \<longrightarrow> calcCAGR start end' years = 0) \<and>
     (0 < years \<and> start < 0 \<and> 0 < end' \<longrightarrow>
        calcCAGR start end' years = ((end' - start) / \<bar>start\<bar>) * 100 / years) \<and>
     (0 < years \<and> 0 < start \<and> end' < 0 \<longrightarrow>
        calcCAGR start end' years = ((end' - start) / start) * 100 / years) \<and>
     (0 < years \<and> start < 0 \<and> end' < 0 \<longrightarrow>
        calcCAGR start end' years = ((\<bar>start\<bar> - \<bar>end'\<bar>) / \<bar>start\<bar>) * 100 / years) \<and>
     (0 < years \<and> start \<noteq> 0 \<and> (0 < start \<and> 0 \<le> end' \<or> end' = 0) \<longrightarrow>
        calcCAGR start end' years = ((end' / start) powr (1 / years) - 1) * 100)"
    by (auto simp add: calcCAGR_def Math_pow_def)
  have reported:
    "fetchCompanyData q t = Inr d \<longrightarrow>
      (\<exists>s inc cfs.
         q t = Inr s \<and> incomeStatementHistory s = Some inc \<and>
         cashflowStatements s = Some cfs \<and> 4 \<le> length inc \<and> 4 \<le> length cfs \<and>
         m_revenueCagr (out_metrics d) =
           Math_round (calcCAGR (rev_y (inc ! 3)) (rev_y (inc ! 0)) 3 * 10) / 10 \<and>
         m_epsCagr (out_metrics d) =
           Math_round (calcCAGR (eps_y (inc ! 3)) (eps_y (inc ! 0)) 3 * 10) / 10 \<and>
         m_fcfCagr (out_metrics d) =
           Math_round (calcCAGR (fcf_c (cfs ! 3)) (fcf_c (cfs ! 0)) 3 * 10) / 10)"
  proof
    assume "fetchCompanyData q t = Inr d"
    from fetchCompanyData_Inr_fields [OF this] obtain s inc cfs where
      h: "q t = Inr s" "incomeStatementHistory s = Some inc" "cashflowStatements s = Some cfs"
         "4 \<le> length inc" "4 \<le> length cfs"
      and m: "out_metrics d =
             \<lparr>m_revenueCagr = Math_round (revenueCagr (deriveMetrics inc cfs s) * 10) / 10,
              m_epsCagr = Math_round (epsCagr (deriveMetrics inc cfs s) * 10) / 10,
              m_fcfCagr = Math_round (fcfCagr (deriveMetrics inc cfs s) * 10) / 10,
              m_marginDelta = Math_round (marginDelta (deriveMetrics inc cfs s) * 10) / 10,
              m_roic = Math_round (roic (deriveMetrics inc cfs s) * 10) / 10,
              m_wacc = Math_round (wacc (deriveMetrics inc cfs s) * 10) / 10\<rparr>"
      by blast
    from m have
      "m_revenueCagr (out_metrics d) =
         Math_round (calcCAGR (rev_y (inc ! 3)) (rev_y (inc ! 0)) 3 * 10) / 10"
      "m_epsCagr (out_metrics d) =
         Math_round (calcCAGR (eps_y (inc ! 3)) (eps_y (inc ! 0)) 3 * 10) / 10"
      "m_fcfCagr (out_metrics d) =
         Math_round (calcCAGR (fcf_c (cfs ! 3)) (fcf_c (cfs ! 0)) 3 * 10) / 10"
      by (simp_all add: deriveMetrics_cagr_arguments)
    with h show "\<exists>s inc cfs.
         q t = Inr s \<and> incomeStatementHistory s = Some inc \<and>
         cashflowStatements s = Some cfs \<and> 4 \<le> length inc \<and> 4 \<le> length cfs \<and>
         m_revenueCagr (out_metrics d) =
           Math_round (calcCAGR (rev_y (inc ! 3)) (rev_y (inc ! 0)) 3 * 10) / 10 \<and>
         m_epsCagr (out_metrics d) =
           Math_round (calcCAGR (eps_y (inc ! 3)) (eps_y (inc ! 0)) 3 * 10) / 10 \<and>
         m_fcfCagr (out_metrics d) =
           Math_round (calcCAGR (fcf_c (cfs ! 3)) (fcf_c (cfs ! 0)) 3 * 10) / 10"
      by blast
  qed
  from piecewise reported deriveMetrics_cagr_arguments [of income cashFlow summary]
  show ?thesis by blast
qed

text \<open>
  Each branch at a concrete input: the guard at a start of 0, from -100 to 50, from
  80 to -40, from -100 to -50, from 16 to 128 and from 100 to 100 over 3 years;
  and ACME, whose revenue goes from 16 (index 3) to 128 (index 0), net income from
  -100 to 50 and free cash flow from 80 to -40.
\<close>

theorem calcCAGR_piecewise_and_arguments_witness:
  "calcCAGR 0 50 3 = 0 \<and>
   calcCAGR (-100) 50 3 = 50 \<and>
   calcCAGR 80 (-40) 3 = -50 \<and>
   calcCAGR (-100) (-50) 3 = 50 / 3 \<and>
   calcCAGR 16 128 3 = 100 \<and>
   calcCAGR 100 100 3 = 0 \<and>
   fetchCompanyData sample_provider ''ACME'' = Inr acme_data \<and>
   rev_y (acme_income ! 3) = 16 \<and> rev_y (acme_income ! 0) = 128 \<and>
   m_revenueCagr (out_metrics acme_data) = 100 \<and>
   m_epsCagr (out_metrics acme_data) = 50 \<and>
   m_fcfCagr (out_metrics acme_data) = -50"
proof -
  have "calcCAGR 0 50 3 = 0"
    using calcCAGR_piecewise_and_arguments [where start = 0 and end' = 50 and years = 3]
    by simp
  moreover have "calcCAGR (-100) 50 3 = 50"
    using calcCAGR_piecewise_and_arguments [where start = "-100" and end' = 50 and years = 3]
    by simp
  moreover have "calcCAGR 80 (-40) 3 = -50"
    using calcCAGR_piecewise_and_arguments [where start = 80 and end' = "-40" and years = 3]
    by simp
  moreover have "calcCAGR (-100) (-50) 3 = 50 / 3"
    using calcCAGR_piecewise_and_arguments [where start = "-100" and end' = "-50" and years = 3]
    by simp
  moreover have "calcCAGR 16 128 3 = 100"
    using calcCAGR_piecewise_and_arguments [where start = 16 and end' = 128 and years = 3]
    by (simp add: cube_root_8)
  moreover have "calcCAGR 100 100 3 = 0"
    using calcCAGR_piecewise_and_arguments [where start = 100 and end' = 100 and years = 3]
    by simp
  moreover have "rev_y (acme_income ! 3) = 16 \<and> rev_y (acme_income ! 0) = 128"
    by (simp add: acme_income_def rev_y_def or_num_def)
  moreover have "m_revenueCagr (out_metrics acme_data) = 100 \<and>
      m_epsCagr (out_metrics acme_data) = 50 \<and> m_fcfCagr (out_metrics acme_data) = -50"
    by (simp add: acme_data_def)
  ultimately show ?thesis
    using calcCAGR_piecewise_and_arguments
      [where q = sample_provider and t = "''ACME''" and d = acme_data]
    by (simp add: fetch_acme)
qed


subsection \<open>Where the rounding happens\<close>

lemma calculateGrowthIndex_baseScore:
  "baseScore (calculateGrowthIndex m w) =
     Math_round ((revenue w * revenueCagr m + eps w * epsCagr m + fcf w * fcfCagr m +
                  margin w * marginDelta m) * 100) / 100"
  by (simp add: calculateGrowthIndex_def Let_def)

lemma calculateGrowthIndex_growthIndex:
  "growthIndex (calculateGrowthIndex m w) =
     Math_round ((revenue w * revenueCagr m + eps w * epsCagr m + fcf w * fcfCagr m +
                  margin w * marginDelta m) *
                 calculateConsistencyFactor (annualRevenueGrowth m) default_minCf default_maxCf *
                 calculateQualityFactor (roic m) (wacc m) default_minQf default_maxQf * 100) / 100"
  by (simp add: calculateGrowthIndex_def Let_def)

text \<open>
  C2, as the code has it: a successful lookup reports each metric as
  \<open>Math.round(x * 10) / 10\<close> of the derived value, and its \<open>baseScore\<close> and
  \<open>growthIndex\<close> are those of \<open>calculateGrowthIndex\<close> on the derived, unrounded
  metrics with the default weights, each rounded once to two decimals.
  \<open>Math.round\<close> is the floor of \<open>x + 1/2\<close>: it agrees with rounding half away from
  zero on every non-negative value and on every value that is not a tie, and is one
  higher on a negative tie.
\<close>

theorem reported_metrics_and_score_rounding:
  "(fetchCompanyData q t = Inr d \<longrightarrow>
      (\<exists>s inc cfs.
         q t = Inr s \<and> incomeStatementHistory s = Some inc \<and>
         cashflowStatements s = Some cfs \<and>
         out_metrics d =
           \<lparr>m_revenueCagr = Math_round (revenueCagr (deriveMetrics inc cfs s) * 10) / 10,
            m_epsCagr = Math_round (epsCagr (deriveMetrics inc cfs s) * 10) / 10,
            m_fcfCagr = Math_round (fcfCagr (deriveMetrics inc cfs s) * 10) / 10,
            m_marginDelta = Math_round (marginDelta (deriveMetrics inc cfs s) * 10) / 10,
            m_roic = Math_round (roic (deriveMetrics inc cfs s) * 10) / 10,
            m_wacc = Math_round (wacc (deriveMetrics inc cfs s) * 10) / 10\<rparr> \<and>
         out_baseScore d =
           baseScore (calculateGrowthIndex (deriveMetrics inc cfs s) DEFAULT_WEIGHTS) \<and>
         out_growthIndex d =
           growthIndex (calculateGrowthIndex (deriveMetrics inc cfs s) DEFAULT_WEIGHTS))) \<and>
   baseScore (calculateGrowthIndex m w) =
     Math_round ((revenue w * revenueCagr m + eps w * epsCagr m + fcf w * fcfCagr m +
                  margin w * marginDelta m) * 100) / 100 \<and>
   growthIndex (calculateGrowthIndex m w) =
     Math_round ((revenue w * revenueCagr m + eps w * epsCagr m + fcf w * fcfCagr m +
                  margin w * marginDelta m) *
                 calculateConsistencyFactor (annualRevenueGrowth m) default_minCf default_maxCf *
                 calculateQualityFactor (roic m) (wacc m) default_minQf default_maxQf * 100) / 100 \<and>
   Math_round x = of_int \<lfloor>x + 1 / 2\<rfloor> \<and>
   (0 \<le> x \<or> x + 1 / 2 \<notin> \<int> \<longrightarrow> Math_round x = round_half_away_from_zero x) \<and>
   (x < 0 \<and> x + 1 / 2 \<in> \<int> \<longrightarrow> Math_round x = round_half_away_from_zero x + 1)"
proof -
  have reported:
    "fetchCompanyData q t = Inr d \<longrightarrow>
      (\<exists>s inc cfs.
         q t = Inr s \<and> incomeStatementHistory s = Some inc \<and>
         cashflowStatements s = Some cfs \<and>
         out_metrics d =
           \<lparr>m_revenueCagr = Math_round (revenueCagr (deriveMetrics inc cfs s) * 10) / 10,
            m_epsCagr = Math_round (epsCagr (deriveMetrics inc cfs s) * 10) / 10,
            m_fcfCagr = Math_round (fcfCagr (deriveMetrics inc cfs s) * 10) / 10,
            m_marginDelta = Math_round (marginDelta (deriveMetrics inc cfs s) * 10) / 10,
            m_roic = Math_round (roic (deriveMetrics inc cfs s) * 10) / 10,
            m_wacc = Math_round (wacc (deriveMetrics inc cfs s) * 10) / 10\<rparr> \<and>
         out_baseScore d =
           baseScore (calculateGrowthIndex (deriveMetrics inc cfs s) DEFAULT_WEIGHTS) \<and>
         out_growthIndex d =
           growthIndex (calculateGrowthIndex (deriveMetrics inc cfs s) DEFAULT_WEIGHTS))"
    using fetchCompanyData_Inr_fields [of q t d] by blast
  have rounding:
    "Math_round x = of_int \<lfloor>x + 1 / 2\<rfloor>"
    "0 \<le> x \<or> x + 1 / 2 \<notin> \<int> \<longrightarrow> Math_round x = round_half_away_from_zero x"
    "x < 0 \<and> x + 1 / 2 \<in> \<int> \<longrightarrow> Math_round x = round_half_away_from_zero x + 1"
    using Math_round_nonneg [of x] Math_round_no_tie [of x] Math_round_negative_tie [of x]
    by (auto simp add: Math_round_def)
  from reported rounding calculateGrowthIndex_baseScore [of m w]
    calculateGrowthIndex_growthIndex [of m w]
  show ?thesis by blast
qed

text \<open>
  ACME: the derived margin delta -6.25 is reported as -6.2 and the score 39.06 is
  that of the derived metrics; 2.5 rounds to 3 either way, and -62.5 rounds to -62,
  one above the -63 of rounding half away from zero.
\<close>

theorem reported_metrics_and_score_rounding_witness:
  "fetchCompanyData sample_provider ''ACME'' = Inr acme_data \<and>
   out_baseScore acme_data =
     baseScore (calculateGrowthIndex (deriveMetrics acme_income acme_cashFlow acme_summary)
       DEFAULT_WEIGHTS) \<and>
   (0::real) \<le> 2.5 \<and> Math_round 2.5 = 3 \<and> round_half_away_from_zero 2.5 = 3 \<and>
   (-62.5::real) < 0 \<and> (-62.5::real) + 1 / 2 \<in> \<int> \<and>
   Math_round (-62.5) = -62 \<and> round_half_away_from_zero (-62.5) = -63"
proof -
  note at_acme = reported_metrics_and_score_rounding
      [where q = sample_provider and t = "''ACME''" and d = acme_data and m = META_metrics
        and w = DEFAULT_WEIGHTS]
  note no_tie = at_acme [where x = "2.5", THEN conjunct2, THEN conjunct2, THEN conjunct2,
      THEN conjunct2, THEN conjunct1]
  note neg_tie = at_acme [where x = "-62.5", THEN conjunct2, THEN conjunct2, THEN conjunct2,
      THEN conjunct2, THEN conjunct2]
  have m1: "Math_round 2.5 = 3" "Math_round (-62.5) = -62"
    by (simp_all add: Math_round_def)
  have "(-62.5::real) + 1 / 2 = of_int (-62)" by simp
  then have tie: "(-62.5::real) + 1 / 2 \<in> \<int>" by (simp only: Ints_of_int)
  from no_tie m1 have r1: "round_half_away_from_zero 2.5 = 3" by simp
  from neg_tie tie m1 have r2: "round_half_away_from_zero (-62.5) = -63" by simp
  have "out_baseScore acme_data =
     baseScore (calculateGrowthIndex (deriveMetrics acme_income acme_cashFlow acme_summary)
       DEFAULT_WEIGHTS)"
    by (simp add: calculateGrowthIndex_acme acme_data_def)
  with m1 r1 r2 tie show ?thesis
    by (simp add: fetch_acme)
qed

text \<open>
  C2 as stated fails on ACME. The derived margin delta is -6.25; the route reports
  -6.2, rounding half away from zero gives -6.3. The reported \<open>baseScore\<close> and
  \<open>growthIndex\<close> are 39.06, computed from the derived metrics; computed from the
  reported one-decimal metrics they would be 39.07.
\<close>

theorem reported_metrics_two_stage_counterexample:
  "fetchCompanyData sample_provider ''ACME'' = Inr acme_data \<and>
   marginDelta (deriveMetrics acme_income acme_cashFlow acme_summary) = -6.25 \<and>
   m_marginDelta (out_metrics acme_data) = -6.2 \<and>
   round_half_away_from_zero (-6.25 * 10) / 10 = -6.3 \<and>
   out_baseScore acme_data = 39.06 \<and>
   baseScore (calculateGrowthIndex
     (metrics_of_reported (out_metrics acme_data)
        (annualRevenueGrowth (deriveMetrics acme_income acme_cashFlow acme_summary)))
     DEFAULT_WEIGHTS) = 39.07 \<and>
   out_growthIndex acme_data = 39.06 \<and>
   growthIndex (calculateGrowthIndex
     (metrics_of_reported (out_metrics acme_data)
        (annualRevenueGrowth (deriveMetrics acme_income acme_cashFlow acme_summary)))
     DEFAULT_WEIGHTS) = 39.07"
proof -
  have r: "metrics_of_reported (out_metrics acme_data)
        (annualRevenueGrowth (deriveMetrics acme_income acme_cashFlow acme_summary)) =
      \<lparr>revenueCagr = 100, epsCagr = 50, fcfCagr = -50, marginDelta = -6.2,
       annualRevenueGrowth = [100, 100, 100], roic = 15, wacc = 10\<rparr>"
    by (simp add: metrics_of_reported_def acme_data_def deriveMetrics_acme)
  have "round_half_away_from_zero (-6.25 * 10) / 10 = -6.3"
    by (simp add: round_half_away_from_zero_def)
  moreover have "baseScore (calculateGrowthIndex
      \<lparr>revenueCagr = 100, epsCagr = 50, fcfCagr = -50, marginDelta = -6.2,
       annualRevenueGrowth = [100, 100, 100], roic = 15, wacc = 10\<rparr> DEFAULT_WEIGHTS) = 39.07"
    by (simp add: calculateGrowthIndex_baseScore DEFAULT_WEIGHTS_def Math_round_def)
  moreover have "growthIndex (calculateGrowthIndex
      \<lparr>revenueCagr = 100, epsCagr = 50, fcfCagr = -50, marginDelta = -6.2,
       annualRevenueGrowth = [100, 100, 100], roic = 15, wacc = 10\<rparr> DEFAULT_WEIGHTS) = 39.07"
    by (simp add: calculateGrowthIndex_growthIndex DEFAULT_WEIGHTS_def cf_flat_100 qf_15_10
          Math_round_def)
  ultimately show ?thesis
    unfolding r by (simp add: fetch_acme deriveMetrics_acme acme_data_def)
qed


subsection \<open>The Meta example\<close>

lemma meta_base: "baseScore (calculateGrowthIndex META_metrics DEFAULT_WEIGHTS) = 41.34"
  by (simp add: calculateGrowthIndex_def META_metrics_def DEFAULT_WEIGHTS_def Let_def Math_round_def)

lemma meta_qf_raw: "calculateQualityFactor 34.0 12.7 default_minQf default_maxQf = 1"
  by (simp add: calculateQualityFactor_def default_minQf_def default_maxQf_def)

lemma meta_mean: "mean [15.7, 21.9, 21.3] = 589 / 30"
  by (simp add: mean_def)

lemma meta_stdev: "stdev [15.7, 21.9, 21.3] = sqrt (2631 / 225)"
  by (simp add: stdev_def power2_eq_square)

lemma sqrt_bounds: "3.4195 < sqrt (2631 / 225)" "sqrt (2631 / 225) < 3.4196"
proof -
  show "3.4195 < sqrt (2631 / 225)" by (rule real_less_rsqrt) (simp add: power2_eq_square)
  show "sqrt (2631 / 225) < 3.4196" by (rule real_less_lsqrt) (simp_all add: power2_eq_square)
qed

lemma meta_cf_raw:
  "calculateConsistencyFactor [15.7, 21.9, 21.3] default_minCf default_maxCf
     = 1 - sqrt (2631 / 225) / (589 / 30)"
proof -
  have "0.5 \<le> 1 - sqrt (2631 / 225) / (589 / 30)" "1 - sqrt (2631 / 225) / (589 / 30) \<le> 1"
    using sqrt_bounds by simp_all
  then show ?thesis
    by (simp add: calculateConsistencyFactor_def meta_mean meta_stdev default_minCf_def
        default_maxCf_def Let_def)
qed

lemma meta_cf_bounds:
  "0.82582 < calculateConsistencyFactor [15.7, 21.9, 21.3] default_minCf default_maxCf"
  "calculateConsistencyFactor [15.7, 21.9, 21.3] default_minCf default_maxCf < 0.82584"
  using sqrt_bounds by (simp_all add: meta_cf_raw)

lemma Math_round_eqI:
  "of_int z \<le> x + 1 / 2 \<Longrightarrow> x + 1 / 2 < of_int z + 1 \<Longrightarrow> Math_round x = of_int z"
  unfolding Math_round_def by (simp add: floor_unique)

lemma meta_cf: "consistencyFactor (calculateGrowthIndex META_metrics DEFAULT_WEIGHTS) = 0.826"
proof -
  define c where "c = calculateConsistencyFactor [15.7, 21.9, 21.3] default_minCf default_maxCf"
  have b: "0.82582 < c" "c < 0.82584" unfolding c_def by (rule meta_cf_bounds)+
  have "Math_round (c * 1000) = of_int 826"
    by (rule Math_round_eqI) (use b in simp_all)
  then show ?thesis
    by (simp add: calculateGrowthIndex_def META_metrics_def Let_def c_def)
qed

lemma meta_qf: "qualityFactor (calculateGrowthIndex META_metrics DEFAULT_WEIGHTS) = 1"
  using meta_qf_raw
  by (simp add: calculateGrowthIndex_def META_metrics_def Let_def Math_round_def)

lemma meta_gi: "growthIndex (calculateGrowthIndex META_metrics DEFAULT_WEIGHTS) = 34.14"
proof -
  define c where "c = calculateConsistencyFactor [15.7, 21.9, 21.3] default_minCf default_maxCf"
  have b: "0.82582 < c" "c < 0.82584" unfolding c_def by (rule meta_cf_bounds)+
  have "Math_round (41.335 * c * 100) = of_int 3414"
    by (rule Math_round_eqI) (use b in simp_all)
  moreover have "growthIndex (calculateGrowthIndex META_metrics DEFAULT_WEIGHTS)
      = Math_round (41.335 * c * 100) / 100"
    using meta_qf_raw
    by (simp add: calculateGrowthIndex_def META_metrics_def DEFAULT_WEIGHTS_def Let_def c_def)
  ultimately show ?thesis by simp
qed

text \<open>
  C5, as the code has it: on the Meta metrics with the default weights
  (0.35, 0.30, 0.20, 0.15) \<open>calculateGrowthIndex\<close> yields a \<open>baseScore\<close> within
  0.1 of 41.34, a \<open>consistencyFactor\<close> within 0.1 of 0.843, a \<open>qualityFactor\<close>
  within 0.1 of 1.0 and a \<open>growthIndex\<close> within 0.1 of 34.14.
\<close>

theorem calculateGrowthIndex_META:
  "DEFAULT_WEIGHTS = \<lparr>revenue = 0.35, eps = 0.30, fcf = 0.20, margin = 0.15\<rparr> \<and>
   \<bar>baseScore (calculateGrowthIndex META_metrics DEFAULT_WEIGHTS) - 41.34\<bar> \<le> 0.1 \<and>
   \<bar>consistencyFactor (calculateGrowthIndex META_metrics DEFAULT_WEIGHTS) - 0.843\<bar> \<le> 0.1 \<and>
   \<bar>qualityFactor (calculateGrowthIndex META_metrics DEFAULT_WEIGHTS) - 1.0\<bar> \<le> 0.1 \<and>
   \<bar>growthIndex (calculateGrowthIndex META_metrics DEFAULT_WEIGHTS) - 34.14\<bar> \<le> 0.1"
proof -
  have "DEFAULT_WEIGHTS = \<lparr>revenue = 0.35, eps = 0.30, fcf = 0.20, margin = 0.15\<rparr>"
    by (simp add: DEFAULT_WEIGHTS_def)
  moreover have
    "\<bar>baseScore (calculateGrowthIndex META_metrics DEFAULT_WEIGHTS) - 41.34\<bar> \<le> 0.1"
    "\<bar>consistencyFactor (calculateGrowthIndex META_metrics DEFAULT_WEIGHTS) - 0.843\<bar> \<le> 0.1"
    "\<bar>qualityFactor (calculateGrowthIndex META_metrics DEFAULT_WEIGHTS) - 1.0\<bar> \<le> 0.1"
    "\<bar>growthIndex (calculateGrowthIndex META_metrics DEFAULT_WEIGHTS) - 34.14\<bar> \<le> 0.1"
    by (simp_all add: meta_base meta_gi meta_cf meta_qf)
  ultimately show ?thesis by blast
qed

text \<open>
  C5 as stated fails: the \<open>baseScore\<close> is 41.34, not within 0.1 of 38.62, and the
  \<open>growthIndex\<close> is 34.14, not within 0.1 of 32.56.
\<close>

theorem calculateGrowthIndex_META_counterexample:
  "baseScore (calculateGrowthIndex META_metrics DEFAULT_WEIGHTS) = 41.34 \<and>
   growthIndex (calculateGrowthIndex META_metrics DEFAULT_WEIGHTS) = 34.14 \<and>
   \<not> \<bar>baseScore (calculateGrowthIndex META_metrics DEFAULT_WEIGHTS) - 38.62\<bar> \<le> 0.1 \<and>
   \<not> \<bar>growthIndex (calculateGrowthIndex META_metrics DEFAULT_WEIGHTS) - 32.56\<bar> \<le> 0.1"
  by (simp add: meta_base meta_gi)

subsection \<open>Comparing companies\<close>











subsection \<open>The batch handler\<close>

lemma sublist_join: "x \<in> set xs \<Longrightarrow> sublist x (join sep xs)"
proof (induction sep xs rule: join.induct)
  case (1 sep)
  then show ?case by simp
next
  case (2 sep x')
  then show ?case by simp
next
  case (3 sep x' y ys)
  show ?case
  proof (cases "x = x'")
    case True
    then show ?thesis by simp
  next
    case False
    with 3 have "sublist x (join sep (y # ys))" by simp
    then obtain ps ss where "join sep (y # ys) = ps @ x @ ss" by (auto simp: sublist_def)
    then have "join sep (x' # y # ys) = (x' @ sep @ ps) @ x @ ss" by simp
    then show ?thesis unfolding sublist_def by blast
  qed
qed

lemma processTicker_fail:
  "isl (pipeline q t) \<Longrightarrow> processTicker q t = Failed (toUpperCase t) (projl (pipeline q t))"
  by (cases "pipeline q t") (simp_all add: processTicker_def)

lemma processTicker_ok:
  "\<not> isl (pipeline q t) \<Longrightarrow> processTicker q t = Data (projr (pipeline q t))"
  by (cases "pipeline q t") (simp_all add: processTicker_def)

lemma has_error_processTicker: "has_error (processTicker q t) = isl (pipeline q t)"
  by (cases "pipeline q t") (simp_all add: processTicker_def)

lemma ok_entries:
  "filter (\<lambda>r. \<not> has_error r) (map (processTicker q) ts) =
   map (\<lambda>t. Data (projr (pipeline q t))) (filter (\<lambda>t. \<not> isl (pipeline q t)) ts)"
  by (induction ts) (simp_all add: has_error_processTicker processTicker_ok)

lemma all_failed_errors:
  "\<forall>t\<in>set ts. isl (pipeline q t) \<Longrightarrow>
   map (error_of \<circ> processTicker q) ts = map (\<lambda>t. projl (pipeline q t)) ts"
  by (induction ts) (simp_all add: processTicker_fail)

lemma POST_all_failed:
  assumes "ts \<noteq> []" "\<forall>t\<in>set (take 10 ts). isl (pipeline q t)"
  shows "POST q (Some ts) =
    \<lparr>status = 400,
     body = \<lparr>success = False,
             error = Some (join ''; '' (map (\<lambda>t. projl (pipeline q t)) (take 10 ts))),
             data = None\<rparr>\<rparr>"
proof -
  from assms(2) have "filter (\<lambda>t. \<not> isl (pipeline q t)) (take 10 ts) = []"
    by (simp add: filter_empty_conv)
  then have "filter (\<lambda>r. \<not> has_error r) (map (processTicker q) (take 10 ts)) = []"
    by (simp add: ok_entries)
  with assms(1) show ?thesis
    unfolding POST_def Let_def
    by (simp add: all_failed_errors [OF assms(2)])
qed

lemma POST_some_ok:
  assumes "\<exists>t\<in>set (take 10 ts). \<not> isl (pipeline q t)"
  shows "POST q (Some ts) =
    \<lparr>status = 200,
     body = \<lparr>success = True, error = None,
             data = Some (map (\<lambda>t. Data (projr (pipeline q t)))
                      (filter (\<lambda>t. \<not> isl (pipeline q t)) (take 10 ts)))\<rparr>\<rparr>"
proof -
  from assms have ne: "filter (\<lambda>t. \<not> isl (pipeline q t)) (take 10 ts) \<noteq> []"
    by (simp add: filter_empty_conv)
  from assms have "ts \<noteq> []" by auto
  with ne show ?thesis
    unfolding POST_def Let_def
    by (simp add: ok_entries)
qed

text \<open>
  C4, as the code has it: when the pipeline of at least one of the first 10 tickers
  succeeds, the handler answers with status 200, success flag true and, as data,
  the results of the successful tickers among the first 10 in input order. The
  failed tickers are filtered out: the answer has no failure entry and no error
  field.
\<close>

theorem POST_partial_success:
  assumes "\<exists>t\<in>set (take 10 ts). \<not> isl (pipeline q t)"
  shows "POST q (Some ts) =
    \<lparr>status = 200,
     body = \<lparr>success = True, error = None,
             data = Some (map (\<lambda>t. Data (projr (pipeline q t)))
                      (filter (\<lambda>t. \<not> isl (pipeline q t)) (take 10 ts)))\<rparr>\<rparr>"
  using assms by (rule POST_some_ok)

text \<open>The batch of NEWCO (too little history) and ACME: only ACME is answered.\<close>

theorem POST_partial_success_witness:
  "\<not> isl (pipeline sample_provider ''acme'') \<and>
   isl (pipeline sample_provider '' newco '') \<and>
   POST sample_provider (Some ['' newco '', ''acme'']) =
     \<lparr>status = 200,
      body = \<lparr>success = True, error = None, data = Some [Data acme_data]\<rparr>\<rparr>"
proof -
  have ok: "\<not> isl (pipeline sample_provider ''acme'')"
    and bad: "isl (pipeline sample_provider '' newco '')"
    by (simp_all add: normalise_tickers fetch_acme fetch_newco)
  then have "\<exists>t\<in>set (take 10 ['' newco '', ''acme'']). \<not> isl (pipeline sample_provider t)"
    by simp
  from POST_partial_success [OF this] ok bad show ?thesis
    by (simp add: normalise_tickers fetch_acme)
qed

text \<open>
  C4 as stated fails on the batch of ACME and an unknown symbol: the pipeline of
  ZZZ fails with a reason, and the answer, with success flag true, holds the ACME
  result alone, with no failure entry and no error field.
\<close>

theorem POST_partial_success_counterexample:
  "processTicker sample_provider ''acme'' = Data acme_data \<and>
   processTicker sample_provider ''zzz'' = Failed ''ZZZ'' ''Quote not found for symbol: ZZZ'' \<and>
   POST sample_provider (Some [''acme'', ''zzz'']) =
     \<lparr>status = 200,
      body = \<lparr>success = True, error = None, data = Some [Data acme_data]\<rparr>\<rparr> \<and>
   filter has_error [Data acme_data] = []"
proof -
  have ok: "\<not> isl (pipeline sample_provider ''acme'')"
    and bad: "isl (pipeline sample_provider ''zzz'')"
    by (simp_all add: normalise_tickers fetch_acme fetch_zzz)
  then have "\<exists>t\<in>set (take 10 [''acme'', ''zzz'']). \<not> isl (pipeline sample_provider t)"
    by simp
  from POST_some_ok [OF this] ok bad show ?thesis
    by (simp add: processTicker_def normalise_tickers fetch_acme fetch_zzz)
qed

text \<open>
  C8: when the list is not empty and the pipeline of every ticker of the batch (the
  first 10 tickers) fails, the handler answers with status 400, success flag false
  and, as its one error message, the failure reasons of the batch in input order
  joined by \<open>"; "\<close>; every one of these reasons is a part of the message.
\<close>

theorem POST_all_failed_message:
  assumes "ts \<noteq> []" and "\<forall>t\<in>set (take 10 ts). isl (pipeline q t)"
  shows "POST q (Some ts) =
      \<lparr>status = 400,
       body = \<lparr>success = False,
               error = Some (join ''; '' (map (\<lambda>t. projl (pipeline q t)) (take 10 ts))),
               data = None\<rparr>\<rparr> \<and>
    (\<forall>t\<in>set (take 10 ts).
       sublist (projl (pipeline q t))
         (join ''; '' (map (\<lambda>t. projl (pipeline q t)) (take 10 ts))))"
proof -
  have "sublist (projl (pipeline q t))
         (join ''; '' (map (\<lambda>t. projl (pipeline q t)) (take 10 ts)))"
    if "t \<in> set (take 10 ts)" for t
    using that by (intro sublist_join) simp
  with POST_all_failed [OF assms] show ?thesis by blast
qed

text \<open>The batch of NEWCO and an unknown symbol: both reasons, joined.\<close>

theorem POST_all_failed_message_witness:
  "['' newco '', ''zzz''] \<noteq> [] \<and>
   isl (pipeline sample_provider '' newco '') \<and> isl (pipeline sample_provider ''zzz'') \<and>
   POST sample_provider (Some ['' newco '', ''zzz'']) =
     \<lparr>status = 400,
      body = \<lparr>success = False,
              error = Some ''Need 4yr data for NEWCO, got 2; Quote not found for symbol: ZZZ'',
              data = None\<rparr>\<rparr> \<and>
   sublist ''Need 4yr data for NEWCO, got 2''
     ''Need 4yr data for NEWCO, got 2; Quote not found for symbol: ZZZ'' \<and>
   sublist ''Quote not found for symbol: ZZZ''
     ''Need 4yr data for NEWCO, got 2; Quote not found for symbol: ZZZ''"
proof -
  have bad: "isl (pipeline sample_provider '' newco '')" "isl (pipeline sample_provider ''zzz'')"
    by (simp_all add: normalise_tickers fetch_newco fetch_zzz)
  then have all: "\<forall>t\<in>set (take 10 ['' newco '', ''zzz'']). isl (pipeline sample_provider t)"
    by simp
  have ne: "['' newco '', ''zzz''] \<noteq> []" by simp
  from POST_all_failed_message [OF ne all] bad show ?thesis
    by (simp add: normalise_tickers fetch_newco fetch_zzz)
qed

end
